theory Spec2Isabelle
  imports Complex_Main "HOL-Library.AList" "HOL-Library.Char_ord" "HOL-Library.List_Lexorder"
begin

section \<open>Values and errors\<close>

text \<open>
  The program is \<^verbatim>\<open>cc_worker.py\<close>. Its data are Python values decoded from JSON:
  a \<^verbatim>\<open>dict\<close> is an association list in insertion order (keys are looked up with
  \<open>map_of\<close>, item assignment is \<open>AList.update\<close>: in place for a key that is there, at
  the end for a new one), a \<^verbatim>\<open>list\<close> is a list, \<^verbatim>\<open>None\<close> is \<open>JNull\<close>.
  A \<^verbatim>\<open>str\<close> inside such a value is a \<open>string\<close>, one \<open>char\<close> for each code point
  below 256, and the character classes on \<open>char\<close> are Python's on that range; the
  function that reads a text character by character is also given on lists of code
  points of any size. The program never computes with a \<^verbatim>\<open>float\<close>: it only passes
  them on.
\<close>

datatype json =
    JNull
  | JBool bool
  | JInt int
  | JFloat real
  | JStr string
  | JArr "json list"
  | JObj "(string \<times> json) list"

type_synonym dict = "(string \<times> json) list"

text \<open>
  The exceptions. \<open>OSError\<close> stands for one that is neither of its two subclasses
  here. \<open>NotModelled\<close> is no exception: it marks a path whose fate depends on what
  this theory does not hold, the files outside the session directory and the length of
  the path of the home directory.
\<close>

datatype error =
    TypeError
  | AttributeError
  | KeyError
  | ValueError
  | JSONDecodeError
  | RecursionError
  | FileNotFoundError
  | NotADirectoryError
  | OSError
  | NotModelled

text \<open>Truth value of a decoded JSON value in a Python condition.\<close>

fun truthy :: "json \<Rightarrow> bool" where
  "truthy JNull = False"
| "truthy (JBool b) = b"
| "truthy (JInt i) = (i \<noteq> 0)"
| "truthy (JFloat x) = (x \<noteq> 0)"
| "truthy (JStr s) = (s \<noteq> [])"
| "truthy (JArr xs) = (xs \<noteq> [])"
| "truthy (JObj kvs) = (kvs \<noteq> [])"

text \<open>\<^verbatim>\<open>d.get(k, default)\<close> and \<^verbatim>\<open>k in d\<close>.\<close>

definition dict_get :: "dict \<Rightarrow> string \<Rightarrow> json \<Rightarrow> json" where
  "dict_get d k dflt = (case map_of d k of None \<Rightarrow> dflt | Some v \<Rightarrow> v)"

definition dict_has :: "dict \<Rightarrow> string \<Rightarrow> bool" where
  "dict_has d k = (map_of d k \<noteq> None)"

section \<open>Strings\<close>

text \<open>
  \<^verbatim>\<open>str.isspace\<close>, which is also the class \<^verbatim>\<open>\s\<close> of \<^verbatim>\<open>re\<close> on a
  \<^verbatim>\<open>str\<close> pattern: U+0009 to U+000D, U+001C to U+001F, the space, U+0085 and U+00A0.
\<close>

definition is_space :: "char \<Rightarrow> bool" where
  "is_space c = (let n = (of_char c :: nat) in
     (9 \<le> n \<and> n \<le> 13) \<or> (28 \<le> n \<and> n \<le> 32) \<or> n = 133 \<or> n = 160)"

definition strip :: "string \<Rightarrow> string" where
  "strip s = rev (dropWhile is_space (rev (dropWhile is_space s)))"

text \<open>\<^verbatim>\<open>s.startswith(p)\<close> and \<^verbatim>\<open>s.endswith(p)\<close>.\<close>

definition startswith :: "'a list \<Rightarrow> 'a list \<Rightarrow> bool" where
  "startswith s p = (take (length p) s = p)"

definition endswith :: "'a list \<Rightarrow> 'a list \<Rightarrow> bool" where
  "endswith s p = (length p \<le> length s \<and> drop (length s - length p) s = p)"

text \<open>\<^verbatim>\<open>sep.join(xs)\<close>.\<close>

fun join :: "string \<Rightarrow> string list \<Rightarrow> string" where
  "join sep [] = []"
| "join sep [x] = x"
| "join sep (x # y # ys) = x @ sep @ join sep (y # ys)"

text \<open>\<^verbatim>\<open>s.split(sep)\<close> for a separator of one character.\<close>

fun split_from :: "char \<Rightarrow> string \<Rightarrow> string \<Rightarrow> string list" where
  "split_from sep cur [] = [rev cur]"
| "split_from sep cur (c # cs) =
     (if c = sep then rev cur # split_from sep [] cs else split_from sep (c # cur) cs)"

definition split :: "string \<Rightarrow> char \<Rightarrow> string list" where
  "split s sep = split_from sep [] s"

text \<open>\<^verbatim>\<open>str(n)\<close> for an \<^verbatim>\<open>int\<close>: decimal, with a minus sign when negative.\<close>

definition digit_char :: "nat \<Rightarrow> char" where
  "digit_char d = ''0123456789'' ! d"

fun str_nat :: "nat \<Rightarrow> string" where
  "str_nat n = (if n < 10 then [digit_char n] else str_nat (n div 10) @ [digit_char (n mod 10)])"

declare str_nat.simps [simp del]

definition str_int :: "int \<Rightarrow> string" where
  "str_int i = (if i < 0 then CHR ''-'' # str_nat (nat (- i)) else str_nat (nat i))"

section \<open>Texts of any code points\<close>

text \<open>
  The text that \<^verbatim>\<open>_fallback_extract_questions\<close> reads may hold any character, and what
  it does depends on the character classes. There a \<^verbatim>\<open>str\<close> is the list of its code
  points, and a \<open>string\<close> is taken there and back with \<open>encode\<close> and \<open>decode\<close>.
\<close>

definition code :: "char \<Rightarrow> int" where
  "code c = of_char c"

definition encode :: "string \<Rightarrow> int list" where
  "encode s = map of_char s"

definition decode :: "int list \<Rightarrow> string" where
  "decode t = map char_of t"

text \<open>
  \<^verbatim>\<open>str.isspace\<close>, also the class \<^verbatim>\<open>\s\<close>, over all code points.
\<close>

definition uni_space :: "int \<Rightarrow> bool" where
  "uni_space c =
     ((0x09 \<le> c \<and> c \<le> 0x0D) \<or> (0x1C \<le> c \<and> c \<le> 0x20) \<or> c = 0x85 \<or> c = 0xA0 \<or>
      c = 0x1680 \<or> (0x2000 \<le> c \<and> c \<le> 0x200A) \<or> c = 0x2028 \<or> c = 0x2029 \<or>
      c = 0x202F \<or> c = 0x205F \<or> c = 0x3000)"

text \<open>
  The class \<^verbatim>\<open>\d\<close>: \<^verbatim>\<open>0\<close> to \<^verbatim>\<open>9\<close>, and beyond ASCII the other decimal digits
  of the Unicode database of the Python at hand, which \<open>nd\<close> gives.
\<close>

definition uni_decimal :: "(int \<Rightarrow> bool) \<Rightarrow> int \<Rightarrow> bool" where
  "uni_decimal nd c = ((0x30 \<le> c \<and> c \<le> 0x39) \<or> (0x80 \<le> c \<and> nd c))"

text \<open>
  The line boundaries of \<^verbatim>\<open>str.splitlines\<close>: LF, VT, FF, CR, FS, GS, RS, NEL, LS and
  PS (CR LF counts as one boundary).
\<close>

definition uni_linebreak :: "int \<Rightarrow> bool" where
  "uni_linebreak c =
     ((0x0A \<le> c \<and> c \<le> 0x0D) \<or> (0x1C \<le> c \<and> c \<le> 0x1E) \<or> c = 0x85 \<or>
      c = 0x2028 \<or> c = 0x2029)"

text \<open>\<^verbatim>\<open>line.strip()\<close>.\<close>

definition text_strip :: "int list \<Rightarrow> int list" where
  "text_strip s = rev (dropWhile uni_space (rev (dropWhile uni_space s)))"

text \<open>
  \<^verbatim>\<open>text.splitlines()\<close>: \<open>cur\<close> is the line being read, reversed. A boundary ends
  the line, also an empty one; the end of the text ends it only when it is not empty.
\<close>

fun splitlines_from :: "int list \<Rightarrow> int list \<Rightarrow> int list list" where
  "splitlines_from cur [] = (if cur = [] then [] else [rev cur])"
| "splitlines_from cur [c] =
     (if uni_linebreak c then [rev cur] else [rev (c # cur)])"
| "splitlines_from cur (c # d # cs) =
     (if c = 0x0D \<and> d = 0x0A then rev cur # splitlines_from [] cs
      else if uni_linebreak c then rev cur # splitlines_from [] (d # cs)
      else splitlines_from (c # cur) (d # cs))"

definition splitlines :: "int list \<Rightarrow> int list list" where
  "splitlines s = splitlines_from [] s"

section \<open>Command builder\<close>

definition DEFAULT_ALLOWED_TOOLS :: "string list" where
  "DEFAULT_ALLOWED_TOOLS =
     [''Read'', ''Grep'', ''Glob'', ''Task'', ''WebSearch'',
      ''mcp__contextweaver__codebase-retrieval'']"

definition DISALLOWED_TOOLS :: "string list" where
  "DISALLOWED_TOOLS = [''Edit'', ''Write'', ''Bash'', ''NotebookEdit'']"

text \<open>
  \<open>bin\<close> is what \<^verbatim>\<open>_find_claude_bin()\<close> returns and \<open>prompt_file\<close> is
  \<^verbatim>\<open>str(WORKER_PROMPT_FILE)\<close>: both depend on the machine only. An optional argument is
  an \<open>option\<close>; \<^verbatim>\<open>allowed_tools or DEFAULT_ALLOWED_TOOLS\<close> and \<^verbatim>\<open>if model:\<close> test the
  truth value, so \<^verbatim>\<open>None\<close> and the empty value behave alike.
\<close>

definition build_exec_cmd ::
  "string \<Rightarrow> string \<Rightarrow> string \<Rightarrow> string option \<Rightarrow> int \<Rightarrow> string list option \<Rightarrow> string list" where
  "build_exec_cmd bin prompt_file task model max_turns allowed_tools =
     (let tools = (case allowed_tools of
                     None \<Rightarrow> DEFAULT_ALLOWED_TOOLS
                   | Some ts \<Rightarrow> if ts = [] then DEFAULT_ALLOWED_TOOLS else ts);
          cmd = [bin, ''-p'', task, ''--output-format'', ''json'',
                 ''--max-turns'', str_int max_turns,
                 ''--append-system-prompt-file'', prompt_file,
                 ''--allowedTools'', join '','' tools,
                 ''--disallowedTools'', join '','' DISALLOWED_TOOLS]
      in case model of
           None \<Rightarrow> cmd
         | Some m \<Rightarrow> if m = [] then cmd else cmd @ [''--model'', m])"

definition build_continue_cmd ::
  "string \<Rightarrow> string \<Rightarrow> string \<Rightarrow> string option \<Rightarrow> int \<Rightarrow> string list" where
  "build_continue_cmd bin session_id message model max_turns =
     (let cmd = [bin, ''-p'', message, ''--resume'', session_id,
                 ''--output-format'', ''json'',
                 ''--max-turns'', str_int max_turns,
                 ''--disallowedTools'', join '','' DISALLOWED_TOOLS]
      in case model of
           None \<Rightarrow> cmd
         | Some m \<Rightarrow> if m = [] then cmd else cmd @ [''--model'', m])"

text \<open>An argument vector holds the flag \<open>f\<close> with the value \<open>v\<close> right after it.\<close>

fun flag_with_value :: "string \<Rightarrow> string \<Rightarrow> string list \<Rightarrow> bool" where
  "flag_with_value f v (a # b # rest) = ((a = f \<and> b = v) \<or> flag_with_value f v (b # rest))"
| "flag_with_value f v _ = False"

section \<open>Result interpreter\<close>

text \<open>
  Two library calls read text the external tool wrote, and they are parameters here.
  \<open>loads\<close> is \<^verbatim>\<open>json.loads\<close> on a \<^verbatim>\<open>str\<close>: it returns the value or raises, a
  \<^verbatim>\<open>JSONDecodeError\<close> for a text that is no JSON, and also a plain \<^verbatim>\<open>ValueError\<close>
  (a number of more than 4300 digits) or a \<^verbatim>\<open>RecursionError\<close> (deep nesting).
  \<open>findall\<close> is \<^verbatim>\<open>re.findall\<close> with the pattern of the fenced code blocks: the texts
  of the blocks, in order of appearance. Given anything but a \<^verbatim>\<open>str\<close>, both raise
  \<^verbatim>\<open>TypeError\<close>.
\<close>

text \<open>
  The loop over the fenced blocks: the first one that parses to a dict with a status.
  Only \<^verbatim>\<open>JSONDecodeError\<close> is caught there.
\<close>

fun first_payload :: "(string \<Rightarrow> error + json) \<Rightarrow> string list \<Rightarrow> error + dict option" where
  "first_payload loads [] = Inr None"
| "first_payload loads (m # ms) =
     (case loads m of
        Inl e \<Rightarrow> if e = JSONDecodeError then first_payload loads ms else Inl e
      | Inr (JObj d) \<Rightarrow> if dict_has d ''status'' then Inr (Some d) else first_payload loads ms
      | Inr _ \<Rightarrow> first_payload loads ms)"

text \<open>
  \<^verbatim>\<open>_extract_worker_json(text)\<close>. Around the first \<^verbatim>\<open>json.loads\<close>,
  \<^verbatim>\<open>JSONDecodeError\<close> and \<^verbatim>\<open>TypeError\<close> are caught and nothing else; the
  \<^verbatim>\<open>TypeError\<close> of \<^verbatim>\<open>re.findall\<close> on a text that is no \<^verbatim>\<open>str\<close> is not caught.
\<close>

definition extract_worker_json ::
  "(string \<Rightarrow> error + json) \<Rightarrow> (string \<Rightarrow> string list) \<Rightarrow> json \<Rightarrow> error + dict option" where
  "extract_worker_json loads findall text =
     (case text of
        JStr s \<Rightarrow>
          (case loads s of
             Inl e \<Rightarrow>
               if e = JSONDecodeError \<or> e = TypeError then first_payload loads (findall s)
               else Inl e
           | Inr (JObj d) \<Rightarrow>
               if dict_has d ''status'' then Inr (Some d)
               else first_payload loads (findall s)
           | Inr _ \<Rightarrow> first_payload loads (findall s))
      | _ \<Rightarrow> Inl TypeError)"

text \<open>\<^verbatim>\<open>re.sub(r"^[\d]+[.)]\s*", "", line)\<close>: the pattern matches at the start only.\<close>

definition sub_ordinal :: "(int \<Rightarrow> bool) \<Rightarrow> int list \<Rightarrow> int list" where
  "sub_ordinal nd line =
     (case dropWhile (uni_decimal nd) line of
        [] \<Rightarrow> line
      | c # cs \<Rightarrow>
          if takeWhile (uni_decimal nd) line \<noteq> [] \<and> (c = code CHR ''.'' \<or> c = code CHR '')'')
          then dropWhile uni_space cs else line)"

text \<open>\<^verbatim>\<open>re.sub(r"^[-*]\s*", "", cleaned)\<close>.\<close>

definition sub_bullet :: "int list \<Rightarrow> int list" where
  "sub_bullet line =
     (case line of
        [] \<Rightarrow> line
      | c # cs \<Rightarrow>
          if c = code CHR ''-'' \<or> c = code CHR ''*'' then dropWhile uni_space cs else line)"

text \<open>The loop of \<^verbatim>\<open>_fallback_extract_questions\<close> over the lines, with its list.\<close>

fun questions_loop :: "(int \<Rightarrow> bool) \<Rightarrow> int list list \<Rightarrow> int list list \<Rightarrow> int list list" where
  "questions_loop nd [] questions = questions"
| "questions_loop nd (l # ls) questions =
     (let line = text_strip l in
      if length line < 10 \<or> startswith line [code CHR ''#''] then questions_loop nd ls questions
      else
        let cleaned = sub_bullet (sub_ordinal nd line) in
        if endswith cleaned [code CHR ''?''] \<and> length cleaned > 10
        then questions_loop nd ls (questions @ [cleaned])
        else questions_loop nd ls questions)"

text \<open>\<^verbatim>\<open>_fallback_extract_questions(text)\<close> on any text.\<close>

definition text_questions :: "(int \<Rightarrow> bool) \<Rightarrow> int list \<Rightarrow> int list list" where
  "text_questions nd text = questions_loop nd (splitlines text) []"

text \<open>
  The same on a \<open>string\<close>: its code points are below 256, where the only decimal digits
  are \<^verbatim>\<open>0\<close> to \<^verbatim>\<open>9\<close>.
\<close>

definition fallback_extract_questions :: "string \<Rightarrow> string list" where
  "fallback_extract_questions text = map decode (text_questions (\<lambda>c. False) (encode text))"

text \<open>
  The \<^verbatim>\<open>else\<close> branch of \<^verbatim>\<open>_run\<close>, taken when no payload was recovered. The text
  is a \<^verbatim>\<open>str\<close> there, since \<^verbatim>\<open>_extract_worker_json\<close> returned; on anything else
  \<^verbatim>\<open>text.splitlines\<close> would raise.
\<close>

definition fallback_result :: "dict \<Rightarrow> dict \<Rightarrow> json \<Rightarrow> error + dict" where
  "fallback_result r result raw_result =
     (case raw_result of
        JStr s \<Rightarrow>
          (let is_truncated = (map_of r ''subtype'' = Some (JStr ''error_max_turns''));
               questions = fallback_extract_questions s
           in Inr (AList.update ''files_analyzed'' (JArr [])
                  (AList.update ''questions'' (JArr (map JStr questions))
                  (AList.update ''analysis'' raw_result
                  (AList.update ''summary'' (JStr '''')
                  (AList.update ''status''
                     (JStr (if is_truncated then ''incomplete''
                            else if questions \<noteq> [] then ''needs_clarification''
                            else ''completed''))
                     result))))))
      | _ \<Rightarrow> Inl AttributeError)"

text \<open>
  The part of \<^verbatim>\<open>_run\<close> after the tool's output was parsed to \<open>raw\<close>:
  \<^verbatim>\<open>raw.get\<close> needs a dict. \<^verbatim>\<open>if worker_data:\<close> tests the truth value of the payload.
\<close>

definition normalized_result ::
  "(string \<Rightarrow> error + json) \<Rightarrow> (string \<Rightarrow> string list) \<Rightarrow> json \<Rightarrow> error + dict" where
  "normalized_result loads findall raw =
     (case raw of
        JObj r \<Rightarrow>
          (let result =
                 [(''session_id'', dict_get r ''session_id'' (JStr '''')),
                  (''model'', dict_get r ''model'' (JStr '''')),
                  (''cost_usd'', dict_get r ''total_cost_usd'' (JInt 0)),
                  (''duration_ms'', dict_get r ''duration_ms'' (JInt 0)),
                  (''num_turns'', dict_get r ''num_turns'' (JInt 0)),
                  (''is_error'', dict_get r ''is_error'' (JBool False)),
                  (''subtype'', dict_get r ''subtype'' (JStr ''''))];
               raw_result = dict_get r ''result'' (JStr '''')
           in case extract_worker_json loads findall raw_result of
                Inl e \<Rightarrow> Inl e
              | Inr worker_data \<Rightarrow>
                  (case worker_data of
                     Some wd \<Rightarrow>
                       if wd \<noteq> [] then
                         Inr (AList.update ''files_analyzed'' (dict_get wd ''files_analyzed'' (JArr []))
                             (AList.update ''questions'' (dict_get wd ''questions'' (JArr []))
                             (AList.update ''analysis'' (dict_get wd ''analysis'' (JStr ''''))
                             (AList.update ''summary'' (dict_get wd ''summary'' (JStr ''''))
                             (AList.update ''status'' (dict_get wd ''status'' (JStr ''completed''))
                                result)))))
                       else fallback_result r result raw_result
                   | None \<Rightarrow> fallback_result r result raw_result))
      | _ \<Rightarrow> Inl AttributeError)"

section \<open>Process runner\<close>

text \<open>
  What \<^verbatim>\<open>subprocess.run\<close> does with the command: it raises
  \<^verbatim>\<open>FileNotFoundError\<close>, raises \<^verbatim>\<open>TimeoutExpired\<close>, raises something else, or
  returns the exit code with the captured output and error text.
\<close>

datatype proc_outcome =
    NotFound
  | TimedOut
  | SpawnFailed
  | Completed int string string

text \<open>
  \<^verbatim>\<open>_run(cmd, cwd, timeout)\<close>; \<open>spawn\<close> is \<^verbatim>\<open>subprocess.run\<close>. An error is
  reported as a dict with the key \<^verbatim>\<open>error\<close>; an exception that \<^verbatim>\<open>_run\<close> does not
  catch is \<open>Inl\<close>. Of the exceptions of \<^verbatim>\<open>json.loads\<close> only \<^verbatim>\<open>JSONDecodeError\<close>
  is caught.
\<close>

definition run ::
  "(string list \<Rightarrow> string option \<Rightarrow> int \<Rightarrow> proc_outcome) \<Rightarrow>
   (string \<Rightarrow> error + json) \<Rightarrow> (string \<Rightarrow> string list) \<Rightarrow>
   string list \<Rightarrow> string option \<Rightarrow> int \<Rightarrow> error + dict" where
  "run spawn loads findall cmd cwd timeout =
     (case spawn cmd cwd timeout of
        NotFound \<Rightarrow>
          Inr [(''error'', JStr ''claude CLI not found. Install Claude Code first.''),
               (''exit_code'', JInt (- 1))]
      | TimedOut \<Rightarrow>
          Inr [(''error'', JStr (''Task timed out after '' @ str_int timeout @ '' seconds'')),
               (''exit_code'', JInt (- 2))]
      | SpawnFailed \<Rightarrow> Inl OSError
      | Completed returncode stdout stderr \<Rightarrow>
          if returncode \<noteq> 0 \<and> strip stdout = [] then
            Inr [(''error'',
                  JStr (if strip stderr \<noteq> [] then strip stderr
                        else ''claude exited with code '' @ str_int returncode)),
                 (''exit_code'', JInt returncode)]
          else
            (case loads stdout of
               Inl e \<Rightarrow>
                 if e = JSONDecodeError then
                   Inr [(''error'', JStr ''Failed to parse claude output as JSON''),
                        (''raw_output'', JStr (take 2000 stdout)),
                        (''exit_code'', JInt returncode)]
                 else Inl e
             | Inr raw \<Rightarrow> normalized_result loads findall raw))"

section \<open>Session store\<close>

text \<open>
  The session directory is the list of its files in the order the system enumerates
  them, each name once. Of a file's text only what \<^verbatim>\<open>json.loads\<close> makes of it is
  kept: the value, or that it is no JSON; so \<^verbatim>\<open>json.dumps\<close> followed by
  \<^verbatim>\<open>json.loads\<close> is taken to give the value back.
\<close>

datatype file_text = Json json | NotJson

type_synonym directory = "(string \<times> file_text) list"

text \<open>
  The f-string \<^verbatim>\<open>f"{session_id}.json"\<close>. A \<^verbatim>\<open>str\<close> is formatted as itself;
  \<open>fmt\<close> is Python's formatting of any other decoded value.
\<close>

definition session_path :: "(json \<Rightarrow> string) \<Rightarrow> json \<Rightarrow> string" where
  "session_path fmt session_id =
     (case session_id of JStr s \<Rightarrow> s | v \<Rightarrow> fmt v) @ ''.json''"

subsection \<open>Where a path leads\<close>

text \<open>
  \<^verbatim>\<open>SESSION_DIR / name\<close> is a path, and the name may hold separators. The file system
  is a POSIX one without symbolic links, a file name has at most 255 bytes, and the
  session directory holds files only, no directory. \<^verbatim>\<open>SESSION_DIR\<close> is
  \<^verbatim>\<open>.cc-worker/sessions\<close> under the home directory, whose own path is short enough
  for a name of up to 1024 bytes to stay within the length a whole path may have; what
  happens with a longer name is left open.
\<close>

definition NAME_MAX :: nat where
  "NAME_MAX = 255"

definition PATH_ROOM :: nat where
  "PATH_ROOM = 1024"

text \<open>The bytes of a name in UTF-8: one for a code point below 128, two up to 255.\<close>

definition utf8_length :: "string \<Rightarrow> nat" where
  "utf8_length s = sum_list (map (\<lambda>c. if (of_char c :: nat) < 128 then 1 else 2) s)"

text \<open>The components of a relative path as \<^verbatim>\<open>pathlib\<close> keeps them: no empty one, no dot.\<close>

definition components :: "string \<Rightarrow> string list" where
  "components name = filter (\<lambda>c. c \<noteq> [] \<and> c \<noteq> ''.'') (split name CHR ''/'')"

text \<open>
  A path leads to an entry of the session directory (there or not yet there), or to no
  file at all, with the error that opening it raises, or beyond what this theory holds.
\<close>

datatype target = Entry string | NoEntry error | Beyond

text \<open>
  The walk along the components: level 0 is the session directory, level 1 its parent
  \<^verbatim>\<open>.cc-worker\<close>, level 2 the home directory. In the session directory a component
  that is not the last would have to be a directory.
\<close>

fun walk :: "directory \<Rightarrow> nat \<Rightarrow> string list \<Rightarrow> target" where
  "walk dir level [] = Beyond"
| "walk dir 0 (c # cs) =
     (if c = ''..'' then walk dir (Suc 0) cs
      else if NAME_MAX < utf8_length c then NoEntry OSError
      else if cs = [] then Entry c
      else if map_of dir c \<noteq> None then NoEntry NotADirectoryError
      else NoEntry FileNotFoundError)"
| "walk dir (Suc 0) (c # cs) =
     (if c = ''..'' then walk dir (Suc (Suc 0)) cs
      else if c = ''sessions'' then walk dir 0 cs
      else Beyond)"
| "walk dir (Suc (Suc 0)) (c # cs) =
     (if c = ''.cc-worker'' then walk dir (Suc 0) cs else Beyond)"
| "walk dir (Suc (Suc (Suc n))) (c # cs) = Beyond"

text \<open>
  A name the directory lists is that entry. A name with a NUL is refused with
  \<^verbatim>\<open>ValueError\<close>; an absolute one replaces \<^verbatim>\<open>SESSION_DIR\<close>.
\<close>

definition locate :: "directory \<Rightarrow> string \<Rightarrow> target" where
  "locate dir name =
     (if map_of dir name \<noteq> None then Entry name
      else if CHR 0x00 \<in> set name then NoEntry ValueError
      else if PATH_ROOM < utf8_length name then Beyond
      else if startswith name ''/'' then Beyond
      else walk dir 0 (components name))"

text \<open>
  \<^verbatim>\<open>path.exists()\<close>: false where there is no file, but a name too long raises
  \<^verbatim>\<open>OSError\<close>.
\<close>

definition path_exists :: "directory \<Rightarrow> string \<Rightarrow> error + bool" where
  "path_exists dir name =
     (case locate dir name of
        Entry n \<Rightarrow> Inr (map_of dir n \<noteq> None)
      | NoEntry e \<Rightarrow> if e = OSError then Inl OSError else Inr False
      | Beyond \<Rightarrow> Inl NotModelled)"

text \<open>\<^verbatim>\<open>path.read_text()\<close> and \<^verbatim>\<open>path.write_text(...)\<close>.\<close>

definition read_text :: "directory \<Rightarrow> string \<Rightarrow> error + file_text" where
  "read_text dir name =
     (case locate dir name of
        Entry n \<Rightarrow> (case map_of dir n of None \<Rightarrow> Inl FileNotFoundError | Some f \<Rightarrow> Inr f)
      | NoEntry e \<Rightarrow> Inl e
      | Beyond \<Rightarrow> Inl NotModelled)"

definition write_text :: "directory \<Rightarrow> string \<Rightarrow> file_text \<Rightarrow> error + directory" where
  "write_text dir name f =
     (case locate dir name of
        Entry n \<Rightarrow> Inr (AList.update n f dir)
      | NoEntry e \<Rightarrow> Inl e
      | Beyond \<Rightarrow> Inl NotModelled)"

subsection \<open>The operations\<close>

text \<open>
  \<^verbatim>\<open>Path.stem\<close>: the name up to its last dot, unless that dot is the first or the
  last character (\<open>rfind\<close> is \<^verbatim>\<open>str.rfind\<close>, the index of the last occurrence).
\<close>

definition rfind :: "string \<Rightarrow> char \<Rightarrow> nat option" where
  "rfind s c =
     (if c \<in> set s then Some (length s - 1 - length (takeWhile (\<lambda>x. x \<noteq> c) (rev s)))
      else None)"

definition path_stem :: "string \<Rightarrow> string" where
  "path_stem name =
     (case rfind name CHR ''.'' of
        None \<Rightarrow> name
      | Some i \<Rightarrow> if 0 < i \<and> i < length name - 1 then take i name else name)"

text \<open>\<^verbatim>\<open>SESSION_DIR.glob("*.json")\<close>.\<close>

definition glob_json :: "directory \<Rightarrow> directory" where
  "glob_json dir = filter (\<lambda>(name, _). endswith name ''.json'') dir"

text \<open>\<^verbatim>\<open>json.loads\<close> of the text of a file.\<close>

definition read_json :: "file_text \<Rightarrow> error + json" where
  "read_json f = (case f of Json v \<Rightarrow> Inr v | NotJson \<Rightarrow> Inl JSONDecodeError)"

text \<open>The dict of an assistant turn, built alike by \<^verbatim>\<open>session_save\<close> and \<^verbatim>\<open>session_update\<close>.\<close>

definition assistant_turn :: "dict \<Rightarrow> string \<Rightarrow> json" where
  "assistant_turn result timestamp =
     JObj [(''role'', JStr ''assistant''),
           (''content'', dict_get result ''result'' (JStr '''')),
           (''status'', dict_get result ''status'' JNull),
           (''timestamp'', JStr timestamp)]"

definition user_turn :: "string \<Rightarrow> string \<Rightarrow> json" where
  "user_turn content timestamp =
     JObj [(''role'', JStr ''user''), (''content'', JStr content),
           (''timestamp'', JStr timestamp)]"

text \<open>
  The dict \<^verbatim>\<open>data\<close> of \<^verbatim>\<open>session_save\<close>, which reads the clock four times: the
  readings are given in the order the dict is built.
\<close>

fun session_record ::
  "string \<times> string \<times> string \<times> string \<Rightarrow> json \<Rightarrow> string \<Rightarrow> dict \<Rightarrow> string \<Rightarrow> json \<Rightarrow> json" where
  "session_record (t_created, t_updated, t_user, t_assistant) session_id task result cwd model =
     JObj [(''session_id'', session_id),
           (''task'', JStr task),
           (''cwd'', JStr cwd),
           (''model'', model),
           (''created_at'', JStr t_created),
           (''updated_at'', JStr t_updated),
           (''turns'', JArr [user_turn task t_user, assistant_turn result t_assistant]),
           (''last_status'', dict_get result ''status'' (JStr ''completed'')),
           (''last_summary'', dict_get result ''summary'' (JStr ''''))]"

text \<open>
  \<^verbatim>\<open>session_save\<close> writes the record and returns it with the directory after the
  write, or raises what \<^verbatim>\<open>write_text\<close> raises.
\<close>

definition session_save ::
  "(json \<Rightarrow> string) \<Rightarrow> string \<times> string \<times> string \<times> string \<Rightarrow>
   json \<Rightarrow> string \<Rightarrow> dict \<Rightarrow> string \<Rightarrow> json \<Rightarrow> directory \<Rightarrow> error + json \<times> directory" where
  "session_save fmt clock session_id task result cwd model dir =
     (let data = session_record clock session_id task result cwd model in
      case write_text dir (session_path fmt session_id) (Json data) of
        Inl e \<Rightarrow> Inl e
      | Inr dir' \<Rightarrow> Inr (data, dir'))"

text \<open>
  \<^verbatim>\<open>session_update\<close>: reading a file that is not there, or not JSON, raises; so do
  \<^verbatim>\<open>data["turns"]\<close> on a value that is no dict or has no such key, and
  \<^verbatim>\<open>.append\<close> on a value that is no list. \<open>now\<close> is the one clock reading.
\<close>

definition session_update ::
  "(json \<Rightarrow> string) \<Rightarrow> string \<Rightarrow> json \<Rightarrow> string \<Rightarrow> dict \<Rightarrow> directory \<Rightarrow>
   error + json \<times> directory" where
  "session_update fmt now session_id message result dir =
     (let path = session_path fmt session_id in
      case read_text dir path of
        Inl e \<Rightarrow> Inl e
      | Inr NotJson \<Rightarrow> Inl JSONDecodeError
      | Inr (Json (JObj d)) \<Rightarrow>
          (case map_of d ''turns'' of
             None \<Rightarrow> Inl KeyError
           | Some (JArr turns) \<Rightarrow>
               (let data = JObj
                      (AList.update ''last_summary'' (dict_get result ''summary'' (JStr ''''))
                      (AList.update ''last_status'' (dict_get result ''status'' (JStr ''completed''))
                      (AList.update ''updated_at'' (JStr now)
                      (AList.update ''turns''
                         (JArr (turns @ [user_turn message now, assistant_turn result now]))
                         d))))
                in case write_text dir path (Json data) of
                     Inl e \<Rightarrow> Inl e
                   | Inr dir' \<Rightarrow> Inr (data, dir'))
           | Some _ \<Rightarrow> Inl AttributeError)
      | Inr (Json _) \<Rightarrow> Inl TypeError)"

text \<open>The scan of \<^verbatim>\<open>session_get\<close> over the files: the first stem that starts with the id.\<close>

fun first_match :: "directory \<Rightarrow> string \<Rightarrow> error + json" where
  "first_match [] session_id = Inr JNull"
| "first_match ((name, f) # ps) session_id =
     (if startswith (path_stem name) session_id then read_json f
      else first_match ps session_id)"

text \<open>\<^verbatim>\<open>session_get\<close>, called with the text of a command-line argument.\<close>

definition session_get :: "directory \<Rightarrow> string \<Rightarrow> error + json" where
  "session_get dir session_id =
     (case path_exists dir (session_id @ ''.json'') of
        Inl e \<Rightarrow> Inl e
      | Inr True \<Rightarrow>
          (case read_text dir (session_id @ ''.json'') of
             Inl e \<Rightarrow> Inl e
           | Inr f \<Rightarrow> read_json f)
      | Inr False \<Rightarrow> first_match (glob_json dir) session_id)"

text \<open>\<^verbatim>\<open>session_delete\<close>: \<^verbatim>\<open>path.unlink()\<close> takes the entry away.\<close>

definition session_delete :: "directory \<Rightarrow> string \<Rightarrow> error + bool \<times> directory" where
  "session_delete dir session_id =
     (case path_exists dir (session_id @ ''.json'') of
        Inl e \<Rightarrow> Inl e
      | Inr True \<Rightarrow>
          (case locate dir (session_id @ ''.json'') of
             Entry n \<Rightarrow> Inr (True, AList.delete n dir)
           | NoEntry e \<Rightarrow> Inl e
           | Beyond \<Rightarrow> Inl NotModelled)
      | Inr False \<Rightarrow> Inr (False, dir))"

section \<open>Driver\<close>

text \<open>The machine the program runs on: the paths it finds and the library calls it makes.\<close>

record platform =
  find_claude_bin :: string
  worker_prompt_file :: string
  json_loads :: "string \<Rightarrow> error + json"
  re_findall :: "string \<Rightarrow> string list"
  subprocess_run :: "string list \<Rightarrow> string option \<Rightarrow> int \<Rightarrow> proc_outcome"
  format_value :: "json \<Rightarrow> string"

text \<open>The arguments of \<^verbatim>\<open>exec\<close>, as \<^verbatim>\<open>argparse\<close> hands them over.\<close>

record exec_args =
  arg_task :: string
  arg_cwd :: "string option"
  arg_model :: "string option"
  arg_max_turns :: int
  arg_allowed_tools :: "string option"

text \<open>The command \<^verbatim>\<open>cmd_exec\<close> has \<^verbatim>\<open>exec_task\<close> build.\<close>

definition exec_command :: "platform \<Rightarrow> exec_args \<Rightarrow> string list" where
  "exec_command P args =
     (let allowed_tools =
            (case arg_allowed_tools args of
               None \<Rightarrow> None
             | Some s \<Rightarrow> if s = [] then None else Some (map strip (split s CHR '','')));
          model = (case arg_model args of
                     None \<Rightarrow> None
                   | Some m \<Rightarrow> if m = [] then None else Some m)
      in build_exec_cmd (find_claude_bin P) (worker_prompt_file P) (arg_task args)
           model (arg_max_turns args) allowed_tools)"

definition exec_task :: "platform \<Rightarrow> exec_args \<Rightarrow> error + dict" where
  "exec_task P args =
     run (subprocess_run P) (json_loads P) (re_findall P)
       (exec_command P args) (arg_cwd args) 600"

text \<open>
  \<^verbatim>\<open>cmd_exec\<close>: the exit status, the document printed and the session directory
  afterwards; what \<^verbatim>\<open>exec_task\<close> or \<^verbatim>\<open>session_save\<close> raises is not caught.
\<close>

definition cmd_exec ::
  "platform \<Rightarrow> string \<times> string \<times> string \<times> string \<Rightarrow> exec_args \<Rightarrow> directory \<Rightarrow>
   error + int \<times> json \<times> directory" where
  "cmd_exec P clock args dir =
     (case exec_task P args of
        Inl e \<Rightarrow> Inl e
      | Inr result \<Rightarrow>
          if dict_has result ''error'' then Inr (1, JObj result, dir)
          else
            (let session_id = dict_get result ''session_id'' (JStr '''') in
             if truthy session_id then
               (case session_save (format_value P) clock session_id (arg_task args) result
                       (case arg_cwd args of
                          None \<Rightarrow> ''.''
                        | Some c \<Rightarrow> if c = [] then ''.'' else c)
                       (dict_get result ''model''
                          (JStr (case arg_model args of None \<Rightarrow> '''' | Some m \<Rightarrow> m)))
                       dir of
                  Inl e \<Rightarrow> Inl e
                | Inr (data, dir') \<Rightarrow> Inr (0, JObj result, dir'))
             else Inr (0, JObj result, dir)))"

section \<open>The specification's notions\<close>

text \<open>
  The candidate questions as the specification words them: of the lines, stripped of
  surrounding whitespace, those of at least 10 characters that do not begin with the
  heading marker and that, with a leading ordinal marker and then a leading bullet marker
  taken off, end with a question mark and are longer than 10 characters; each with its
  markers taken off.
\<close>

definition clean_markers :: "(int \<Rightarrow> bool) \<Rightarrow> int list \<Rightarrow> int list" where
  "clean_markers nd line = sub_bullet (sub_ordinal nd line)"

definition is_question_line :: "(int \<Rightarrow> bool) \<Rightarrow> int list \<Rightarrow> bool" where
  "is_question_line nd line =
     (10 \<le> length line \<and> hd line \<noteq> code CHR ''#'' \<and>
      10 < length (clean_markers nd line) \<and> last (clean_markers nd line) = code CHR ''?'')"

definition question_lines :: "(int \<Rightarrow> bool) \<Rightarrow> int list \<Rightarrow> int list list" where
  "question_lines nd text =
     map (clean_markers nd) (filter (is_question_line nd) (map text_strip (splitlines text)))"

text \<open>Reading a value: \<^verbatim>\<open>v[k]\<close> of a dict (\<open>JNull\<close> otherwise), the elements of a list.\<close>

definition item :: "json \<Rightarrow> string \<Rightarrow> json" where
  "item v k = (case v of JObj d \<Rightarrow> dict_get d k JNull | _ \<Rightarrow> JNull)"

definition elements :: "json \<Rightarrow> json list" where
  "elements v = (case v of JArr xs \<Rightarrow> xs | _ \<Rightarrow> [])"

definition is_str :: "json \<Rightarrow> bool" where
  "is_str v = (case v of JStr s \<Rightarrow> True | _ \<Rightarrow> False)"

definition is_str_list :: "json \<Rightarrow> bool" where
  "is_str_list v = (case v of JArr xs \<Rightarrow> list_all is_str xs | _ \<Rightarrow> False)"

definition nonempty_list :: "json \<Rightarrow> bool" where
  "nonempty_list v = (case v of JArr (x # xs) \<Rightarrow> True | _ \<Rightarrow> False)"

definition STATUSES :: "string list" where
  "STATUSES = [''completed'', ''incomplete'', ''needs_clarification'']"

text \<open>
  The invariant the specification gives the Normalized Result: the status is one of the
  three values, and the questions are non-empty only with \<^verbatim>\<open>needs_clarification\<close>.
\<close>

definition status_invariant :: "dict \<Rightarrow> bool" where
  "status_invariant res =
     (item (JObj res) ''status'' \<in> set (map JStr STATUSES) \<and>
      (if nonempty_list (item (JObj res) ''questions'')
       then item (JObj res) ''status'' = JStr ''needs_clarification'' else True))"

text \<open>
  What holds on the heuristic path: questions come with \<^verbatim>\<open>needs_clarification\<close> or
  with \<^verbatim>\<open>incomplete\<close>, and \<^verbatim>\<open>needs_clarification\<close> never comes without them.
\<close>

definition fallback_invariant :: "dict \<Rightarrow> bool" where
  "fallback_invariant res =
     (item (JObj res) ''status'' \<in> set (map JStr STATUSES) \<and>
      (if nonempty_list (item (JObj res) ''questions'')
       then item (JObj res) ''status'' = JStr ''needs_clarification'' \<or>
            item (JObj res) ''status'' = JStr ''incomplete''
       else item (JObj res) ''status'' \<noteq> JStr ''needs_clarification''))"

text \<open>The shape of a Normalized Result: its twelve keys in order, each of its type.\<close>

definition RESULT_KEYS :: "string list" where
  "RESULT_KEYS =
     [''session_id'', ''model'', ''cost_usd'', ''duration_ms'', ''num_turns'', ''is_error'',
      ''subtype'', ''status'', ''summary'', ''analysis'', ''questions'', ''files_analyzed'']"

definition well_formed :: "dict \<Rightarrow> bool" where
  "well_formed res =
     (map fst res = RESULT_KEYS \<and>
      item (JObj res) ''status'' \<in> set (map JStr STATUSES) \<and>
      is_str (item (JObj res) ''summary'') \<and>
      is_str (item (JObj res) ''analysis'') \<and>
      is_str_list (item (JObj res) ''questions'') \<and>
      is_str_list (item (JObj res) ''files_analyzed''))"


text \<open>
  A session id that is a file name: no separator and no NUL in it, and with the suffix
  \<^verbatim>\<open>.json\<close> no longer than a file name may be.
\<close>

definition plain_id :: "string \<Rightarrow> bool" where
  "plain_id sid =
     (CHR ''/'' \<notin> set sid \<and> CHR 0x00 \<notin> set sid \<and> utf8_length (sid @ ''.json'') \<le> NAME_MAX)"


section \<open>Worked examples\<close>

text \<open>
  The library calls at the texts of the examples. One text is a payload and one is an
  output of the tool; a text of more than 4300 digits is a number too long for
  \<^verbatim>\<open>json.loads\<close>; no other text of the examples is JSON, and none has a fenced block.
\<close>

definition payload_text :: string where
  \<open>payload_text = ''{"status": "partial", "questions": ["Which port?"]}''\<close>

definition envelope_text :: string where
  \<open>envelope_text =
     ''{"session_id": "abc123", "subtype": "success", "result": "The parser is in lexer.py."}''\<close>

definition example_loads :: "string \<Rightarrow> error + json" where
  "example_loads s =
     (if 4300 < length s \<and> list_all (\<lambda>c. c \<in> set ''0123456789'') s then Inl ValueError
      else if s = payload_text then
        Inr (JObj [(''status'', JStr ''partial''), (''questions'', JArr [JStr ''Which port?''])])
      else if s = envelope_text then
        Inr (JObj [(''session_id'', JStr ''abc123''), (''subtype'', JStr ''success''),
                   (''result'', JStr ''The parser is in lexer.py.'')])
      else Inl JSONDecodeError)"

definition example_findall :: "string \<Rightarrow> string list" where
  "example_findall s = []"

definition example_format :: "json \<Rightarrow> string" where
  "example_format v = ''null''"

definition example_platform :: "proc_outcome \<Rightarrow> platform" where
  "example_platform out =
     \<lparr>find_claude_bin = ''claude'',
      worker_prompt_file = ''/opt/cc-worker/scripts/worker_system.md'',
      json_loads = example_loads,
      re_findall = example_findall,
      subprocess_run = (\<lambda>cmd cwd timeout. out),
      format_value = example_format\<rparr>"

definition example_args :: exec_args where
  "example_args =
     \<lparr>arg_task = ''Where is the parser?'', arg_cwd = None, arg_model = None,
      arg_max_turns = 15, arg_allowed_tools = None\<rparr>"

definition example_clock :: "string \<times> string \<times> string \<times> string" where
  "example_clock =
     (''2026-03-01T10:00:00.000101+00:00'', ''2026-03-01T10:00:00.000105+00:00'',
      ''2026-03-01T10:00:00.000108+00:00'', ''2026-03-01T10:00:00.000111+00:00'')"

definition example_result :: dict where
  "example_result =
     [(''session_id'', JStr ''abc123''), (''model'', JStr ''''), (''cost_usd'', JInt 0),
      (''duration_ms'', JInt 0), (''num_turns'', JInt 0), (''is_error'', JBool False),
      (''subtype'', JStr ''success''), (''status'', JStr ''completed''), (''summary'', JStr ''''),
      (''analysis'', JStr ''The parser is in lexer.py.''), (''questions'', JArr []),
      (''files_analyzed'', JArr [])]"

definition example_turns :: "json list" where
  "example_turns =
     [JObj [(''role'', JStr ''user''), (''content'', JStr ''Where is the parser?''),
            (''timestamp'', JStr ''2026-03-01T10:00:00.000108+00:00'')],
      JObj [(''role'', JStr ''assistant''), (''content'', JStr ''''),
            (''status'', JStr ''completed''),
            (''timestamp'', JStr ''2026-03-01T10:00:00.000111+00:00'')]]"

definition example_fields :: dict where
  "example_fields =
     [(''session_id'', JStr ''abc123''),
      (''task'', JStr ''Where is the parser?''),
      (''cwd'', JStr ''.''),
      (''model'', JStr ''''),
      (''created_at'', JStr ''2026-03-01T10:00:00.000101+00:00''),
      (''updated_at'', JStr ''2026-03-01T10:00:00.000105+00:00''),
      (''turns'', JArr example_turns),
      (''last_status'', JStr ''completed''),
      (''last_summary'', JStr '''')]"

definition example_record :: json where
  "example_record = JObj example_fields"

text \<open>
  A session directory with the one record that \<^verbatim>\<open>session_save\<close> writes for the
  example, and one with two sessions, the id of one a prefix of the other's.
\<close>

definition example_dir :: directory where
  "example_dir = [(''abc123.json'', Json example_record)]"

definition two_sessions_dir :: directory where
  "two_sessions_dir =
     [(''abc.json'', Json (JObj [(''session_id'', JStr ''abc'')])),
      (''abcdef.json'', Json (JObj [(''session_id'', JStr ''abcdef'')]))]"


text \<open>
  A text with characters beyond ASCII: an ideographic space, a line separator, a file
  separator and Arabic-Indic digits, which are decimal digits of the Unicode database
  (\<open>example_digits\<close> is that part of the table).
\<close>

definition example_digits :: "int \<Rightarrow> bool" where
  "example_digits c = (0x660 \<le> c \<and> c \<le> 0x669)"

definition example_text :: "int list" where
  "example_text =
     [0x3000, 0x20] @ encode ''- Which port should the server use?  '' @ [0x2028] @
     encode ''# Is this a heading or a question?'' @ [0x0A] @
     encode ''2) What is the deadline?'' @ [0x0D, 0x0A] @
     [0x663] @ encode ''. Is it so?'' @ [0x0A] @
     encode ''The parser is in lexer.py.'' @ [0x1C] @
     [0x663, 0x661] @ encode '') -  Do we keep the old parser?'' @ [0x0B] @
     encode ''* 1. Should it retry on failure?''"

section \<open>Command builder: the deny list\<close>

lemma digit_char_digit: "k < 10 \<Longrightarrow> digit_char k \<in> set ''0123456789''"
  unfolding digit_char_def by (rule nth_mem) simp

lemma str_nat_digits: "set (str_nat n) \<subseteq> set ''0123456789''"
proof (induction n rule: str_nat.induct)
  case (1 n)
  show ?case
  proof (cases "n < 10")
    case True
    then show ?thesis using digit_char_digit[of n] by (subst str_nat.simps) simp
  next
    case False
    then show ?thesis using 1 digit_char_digit[of "n mod 10"] by (subst str_nat.simps) simp
  qed
qed

lemma str_int_not_flag: "str_int i \<noteq> ''--allowedTools''"
proof
  assume a: "str_int i = ''--allowedTools''"
  show False
  proof (cases "i < 0")
    case True
    with a have "str_nat (nat (- i)) = ''-allowedTools''" by (simp add: str_int_def)
    then have "CHR ''-'' \<in> set (str_nat (nat (- i)))" by simp
    with str_nat_digits show False by fastforce
  next
    case False
    with a have "str_nat (nat i) = ''--allowedTools''" by (simp add: str_int_def)
    then have "CHR ''-'' \<in> set (str_nat (nat i))" by simp
    with str_nat_digits show False by fastforce
  qed
qed

lemma join_disallowed: "join '','' DISALLOWED_TOOLS = ''Edit,Write,Bash,NotebookEdit''"
  by (simp add: DISALLOWED_TOOLS_def)

text \<open>
  C1, as the code has it. Both commands hold \<^verbatim>\<open>--disallowedTools\<close> followed by the
  whole fixed list, whatever the task, the model, the turn budget and the allowed tools
  of the caller are. The continue command holds the argument \<^verbatim>\<open>--allowedTools\<close> only
  when the caller's own text is that very string: the executable's path, the message,
  the session id or the model. The builder adds no such flag itself, and it passes the
  caller's texts on as they are.
\<close>

theorem disallowed_always_appended:
  "flag_with_value ''--disallowedTools'' ''Edit,Write,Bash,NotebookEdit''
     (build_exec_cmd bin prompt_file task model max_turns allowed_tools) \<and>
   flag_with_value ''--disallowedTools'' ''Edit,Write,Bash,NotebookEdit''
     (build_continue_cmd bin session_id message model max_turns) \<and>
   (''--allowedTools'' \<in> set (build_continue_cmd bin session_id message model max_turns) \<longrightarrow>
      bin = ''--allowedTools'' \<or> message = ''--allowedTools'' \<or>
      session_id = ''--allowedTools'' \<or> model = Some ''--allowedTools'')"
proof -
  have e: "flag_with_value ''--disallowedTools'' ''Edit,Write,Bash,NotebookEdit''
     (build_exec_cmd bin prompt_file task model max_turns allowed_tools)"
    by (simp add: build_exec_cmd_def join_disallowed Let_def split: option.splits)
  have c: "flag_with_value ''--disallowedTools'' ''Edit,Write,Bash,NotebookEdit''
     (build_continue_cmd bin session_id message model max_turns)"
    by (simp add: build_continue_cmd_def join_disallowed Let_def split: option.splits)
  have n: "''--allowedTools'' \<in> set (build_continue_cmd bin session_id message model max_turns)
    \<Longrightarrow> bin = ''--allowedTools'' \<or> message = ''--allowedTools'' \<or>
         session_id = ''--allowedTools'' \<or> model = Some ''--allowedTools''"
    using str_int_not_flag[of max_turns]
    by (auto simp: build_continue_cmd_def join_disallowed Let_def split: option.splits if_splits)
  from e c n show ?thesis by simp
qed

theorem disallowed_always_appended_witness:
  "flag_with_value ''--disallowedTools'' ''Edit,Write,Bash,NotebookEdit''
     (build_exec_cmd ''claude'' ''/opt/worker_system.md'' ''Where is the parser?'' (Some ''opus'') 15
        (Some [''Bash'', ''Write''])) \<and>
   flag_with_value ''--disallowedTools'' ''Edit,Write,Bash,NotebookEdit''
     (build_continue_cmd ''claude'' ''abc123'' ''And the lexer?'' None 15) \<and>
   ''--allowedTools'' \<notin> set (build_continue_cmd ''claude'' ''abc123'' ''And the lexer?'' None 15)"
  using disallowed_always_appended [of "''claude''" "''/opt/worker_system.md''"
      "''Where is the parser?''" "Some ''opus''" 15 "Some [''Bash'', ''Write'']"
      "''abc123''" "''And the lexer?''"]
    disallowed_always_appended [of "''claude''" "''/opt/worker_system.md''"
      "''Where is the parser?''" None 15 None "''abc123''" "''And the lexer?''"]
  by simp

text \<open>
  C1 as it is worded fails for a follow-up message that is the flag's own name: the
  argument vector then holds \<^verbatim>\<open>--allowedTools\<close>.
\<close>

theorem continue_cmd_allowed_flag_counterexample:
  "''--allowedTools'' \<in> set (build_continue_cmd ''claude'' ''abc123'' ''--allowedTools'' None 15)"
  by (simp add: build_continue_cmd_def)

section \<open>Result interpreter: the candidate questions\<close>

lemma endswith_last: "endswith s [c] = (s \<noteq> [] \<and> last s = c)"
proof (cases s rule: rev_cases)
  case Nil
  then show ?thesis by (simp add: endswith_def)
next
  case (snoc ys y)
  then show ?thesis by (simp add: endswith_def)
qed

lemma startswith_hd: "s \<noteq> [] \<Longrightarrow> startswith s [c] = (hd s = c)"
  by (cases s) (simp_all add: startswith_def)

lemma questions_loop_eq:
  "questions_loop nd ls acc =
     acc @ map (clean_markers nd) (filter (is_question_line nd) (map text_strip ls))"
proof (induction ls arbitrary: acc)
  case Nil
  show ?case by simp
next
  case (Cons l ls)
  show ?case
  proof (cases "length (text_strip l) < 10")
    case True
    then show ?thesis by (simp add: Cons.IH is_question_line_def Let_def)
  next
    case False
    then have ne: "text_strip l \<noteq> []" by auto
    from False ne show ?thesis
      by (auto simp add: Cons.IH is_question_line_def clean_markers_def Let_def
            startswith_hd endswith_last)
  qed
qed

lemma dropWhile_all: "list_all P xs \<Longrightarrow> dropWhile P (xs @ ys) = dropWhile P ys"
  by (induction xs) simp_all

lemma takeWhile_all: "list_all P xs \<Longrightarrow> takeWhile P (xs @ ys) = xs @ takeWhile P ys"
  by (induction xs) simp_all

lemma dropWhile_stop: "ys = [] \<or> \<not> P (hd ys) \<Longrightarrow> dropWhile P ys = ys"
  by (cases ys) auto

lemma takeWhile_stop: "ys = [] \<or> \<not> P (hd ys) \<Longrightarrow> takeWhile P ys = []"
  by (cases ys) auto

lemma text_strip_pin:
  assumes a: "list_all uni_space a" and b: "list_all uni_space b"
    and m: "m = [] \<or> \<not> uni_space (hd m) \<and> \<not> uni_space (last m)"
  shows "text_strip (a @ m @ b) = m"
proof (cases "m = []")
  case True
  from a have "dropWhile uni_space (a @ b) = dropWhile uni_space b"
    by (rule dropWhile_all)
  also from b have "dropWhile uni_space (b @ []) = dropWhile uni_space []"
    by (rule dropWhile_all)
  then have "dropWhile uni_space b = []" by simp
  finally have e: "dropWhile uni_space (a @ b) = []" .
  show ?thesis unfolding text_strip_def True append_Nil e by simp
next
  case False
  with m have h: "\<not> uni_space (hd m)" and l: "\<not> uni_space (last m)" by simp_all
  from False h have "dropWhile uni_space (m @ b) = m @ b"
    by (cases m) simp_all
  with a have 1: "dropWhile uni_space (a @ m @ b) = m @ b"
    by (simp add: dropWhile_all)
  from b have rb: "list_all uni_space (rev b)" by (simp add: list_all_iff)
  from False l have "dropWhile uni_space (rev m) = rev m"
    by (cases m rule: rev_cases) simp_all
  with rb have "dropWhile uni_space (rev b @ rev m) = rev m"
    by (simp add: dropWhile_all)
  with 1 show ?thesis by (simp add: text_strip_def)
qed

lemma sub_ordinal_present:
  assumes ds: "ds \<noteq> []" "list_all (uni_decimal nd) ds"
    and c: "c = code CHR ''.'' \<or> c = code CHR '')''"
    and ws: "list_all uni_space ws" and r: "rest = [] \<or> \<not> uni_space (hd rest)"
  shows "sub_ordinal nd (ds @ c # ws @ rest) = rest"
proof -
  from c have nc: "\<not> uni_decimal nd c" by (auto simp add: uni_decimal_def code_def)
  from ds(2) nc have d: "dropWhile (uni_decimal nd) (ds @ c # ws @ rest) = c # ws @ rest"
    by (simp add: dropWhile_all)
  from ds(2) nc have t: "takeWhile (uni_decimal nd) (ds @ c # ws @ rest) = ds"
    by (simp add: takeWhile_all)
  from ws r have "dropWhile uni_space (ws @ rest) = rest"
    by (simp add: dropWhile_all dropWhile_stop)
  with d t ds(1) c show ?thesis by (simp add: sub_ordinal_def)
qed

lemma sub_ordinal_absent:
  assumes ds: "list_all (uni_decimal nd) ds"
    and r: "rest = [] \<or> \<not> uni_decimal nd (hd rest)"
    and n: "ds = [] \<or> rest = [] \<or> hd rest \<noteq> code CHR ''.'' \<and> hd rest \<noteq> code CHR '')''"
  shows "sub_ordinal nd (ds @ rest) = ds @ rest"
proof -
  from ds r have d: "dropWhile (uni_decimal nd) (ds @ rest) = rest"
    by (simp add: dropWhile_all dropWhile_stop)
  from ds r have t: "takeWhile (uni_decimal nd) (ds @ rest) = ds"
    by (simp add: takeWhile_all takeWhile_stop)
  have e: "sub_ordinal nd (ds @ rest) =
      (case rest of
         [] \<Rightarrow> ds @ rest
       | c # cs \<Rightarrow>
           if ds \<noteq> [] \<and> (c = code CHR ''.'' \<or> c = code CHR '')'')
           then dropWhile uni_space cs else ds @ rest)"
    unfolding sub_ordinal_def d t ..
  show ?thesis
  proof (cases rest)
    case Nil
    with e show ?thesis by simp
  next
    case (Cons x xs)
    with n have "ds = [] \<or> x \<noteq> code CHR ''.'' \<and> x \<noteq> code CHR '')''" by simp
    with e Cons show ?thesis by auto
  qed
qed

lemma sub_bullet_present:
  assumes c: "c = code CHR ''-'' \<or> c = code CHR ''*''"
    and ws: "list_all uni_space ws" and r: "rest = [] \<or> \<not> uni_space (hd rest)"
  shows "sub_bullet (c # ws @ rest) = rest"
proof -
  from ws r have "dropWhile uni_space (ws @ rest) = rest"
    by (simp add: dropWhile_all dropWhile_stop)
  with c show ?thesis by (auto simp add: sub_bullet_def)
qed

lemma sub_bullet_absent:
  "line = [] \<or> hd line \<noteq> code CHR ''-'' \<and> hd line \<noteq> code CHR ''*'' \<Longrightarrow> sub_bullet line = line"
  by (cases line) (auto simp add: sub_bullet_def)

lemma splitlines_from_line:
  "\<not> list_ex uni_linebreak l \<Longrightarrow>
   splitlines_from cur (l @ rest) = splitlines_from (rev l @ cur) rest"
proof (induction l arbitrary: cur)
  case Nil
  show ?case by simp
next
  case (Cons c l)
  then have c: "\<not> uni_linebreak c" and l: "\<not> list_ex uni_linebreak l" by simp_all
  from c have c13: "c \<noteq> 0x0D" by (auto simp add: uni_linebreak_def)
  show ?case
  proof (cases "l @ rest")
    case Nil
    with c show ?thesis by simp
  next
    case (Cons d cs)
    have "splitlines_from cur ((c # l) @ rest) = splitlines_from cur (c # d # cs)"
      using Cons by simp
    also have "\<dots> = splitlines_from (c # cur) (d # cs)"
      using c c13 by simp
    also have "\<dots> = splitlines_from (c # cur) (l @ rest)"
      using Cons by simp
    also have "\<dots> = splitlines_from (rev l @ c # cur) rest"
      using Cons.IH [OF l] .
    finally show ?thesis by simp
  qed
qed

lemma splitlines_last:
  assumes "l \<noteq> []" "\<not> list_ex uni_linebreak l"
  shows "splitlines l = [l]"
proof -
  have "splitlines_from [] (l @ []) = splitlines_from (rev l @ []) []"
    using assms(2) by (rule splitlines_from_line)
  with assms(1) show ?thesis by (simp add: splitlines_def)
qed

lemma splitlines_break:
  assumes l: "\<not> list_ex uni_linebreak l" and b: "uni_linebreak b"
    and n: "\<not> (b = 0x0D \<and> rest \<noteq> [] \<and> hd rest = 0x0A)"
  shows "splitlines (l @ b # rest) = l # splitlines rest"
proof -
  have 1: "splitlines (l @ b # rest) = splitlines_from (rev l) (b # rest)"
    using splitlines_from_line [OF l, of "[]" "b # rest"] by (simp add: splitlines_def)
  show ?thesis
  proof (cases rest)
    case Nil
    with 1 b show ?thesis by (simp add: splitlines_def)
  next
    case (Cons d cs)
    with n have "\<not> (b = 0x0D \<and> d = 0x0A)" by simp
    with 1 b Cons show ?thesis by (auto simp add: splitlines_def)
  qed
qed

lemma splitlines_crlf:
  assumes l: "\<not> list_ex uni_linebreak l"
  shows "splitlines (l @ 0x0D # 0x0A # rest) = l # splitlines rest"
  using splitlines_from_line [OF l, of "[]" "0x0D # 0x0A # rest"] by (simp add: splitlines_def)

lemma example_text_questions:
  "question_lines example_digits example_text =
   map encode [''Which port should the server use?'', ''What is the deadline?'',
               ''Do we keep the old parser?'', ''1. Should it retry on failure?'']"
  by code_simp

lemma example_numbered_questions:
  "map decode (question_lines (\<lambda>c. False)
     (encode ''1. What is the deployment target?\<newline>Some notes.\<newline>2. Is caching required?'')) =
   [''What is the deployment target?'', ''Is caching required?'']"
  by code_simp

text \<open>
  C5. For every text, of any code points, \<^verbatim>\<open>_fallback_extract_questions\<close> returns the
  candidate questions of the specification in their order of appearance: of the lines,
  stripped of surrounding whitespace, those of at least 10 characters that do not begin
  with \<^verbatim>\<open>#\<close> and that, with the markers taken off, end with a question mark and are
  longer than 10 characters; each with its markers taken off. What the words mean is
  fixed with it:
  \<^item> stripping takes off the whitespace on both sides, and nothing else;
  \<^item> the ordinal marker is a run of decimal digits followed by \<^verbatim>\<open>.\<close> or \<^verbatim>\<open>)\<close> at the
    start of the line, taken off with the whitespace after it; a line without one is
    left as it is;
  \<^item> the bullet marker is a \<^verbatim>\<open>-\<close> or a \<^verbatim>\<open>*\<close> at the start of what the ordinal left,
    taken off with the whitespace after it; a line without one is left as it is;
  \<^item> the lines are what lies between the line boundaries, a carriage return before a
    line feed being one boundary with it, and a text that ends with a boundary has no
    empty last line;
  \<^item> whitespace, the line boundaries and the digits are the code points listed.
\<close>

theorem fallback_extract_questions_spec:
  "text_questions nd t = question_lines nd t \<and>
   fallback_extract_questions s = map decode (question_lines (\<lambda>c. False) (encode s)) \<and>
   (list_all uni_space a \<and> list_all uni_space b \<and>
    (m = [] \<or> \<not> uni_space (hd m) \<and> \<not> uni_space (last m)) \<longrightarrow>
      text_strip (a @ m @ b) = m) \<and>
   (ds \<noteq> [] \<and> list_all (uni_decimal nd) ds \<and> (c = code CHR ''.'' \<or> c = code CHR '')'') \<and>
    list_all uni_space ws \<and> (rest = [] \<or> \<not> uni_space (hd rest)) \<longrightarrow>
      sub_ordinal nd (ds @ c # ws @ rest) = rest) \<and>
   (list_all (uni_decimal nd) es \<and> (tail = [] \<or> \<not> uni_decimal nd (hd tail)) \<and>
    (es = [] \<or> tail = [] \<or> hd tail \<noteq> code CHR ''.'' \<and> hd tail \<noteq> code CHR '')'') \<longrightarrow>
      sub_ordinal nd (es @ tail) = es @ tail) \<and>
   ((k = code CHR ''-'' \<or> k = code CHR ''*'') \<and>
    list_all uni_space vs \<and> (item' = [] \<or> \<not> uni_space (hd item')) \<longrightarrow>
      sub_bullet (k # vs @ item') = item') \<and>
   (plain = [] \<or> hd plain \<noteq> code CHR ''-'' \<and> hd plain \<noteq> code CHR ''*'' \<longrightarrow>
      sub_bullet plain = plain) \<and>
   splitlines [] = [] \<and>
   (l \<noteq> [] \<and> \<not> list_ex uni_linebreak l \<longrightarrow> splitlines l = [l]) \<and>
   (\<not> list_ex uni_linebreak l \<and> uni_linebreak br \<and>
    \<not> (br = 0x0D \<and> after \<noteq> [] \<and> hd after = 0x0A) \<longrightarrow>
      splitlines (l @ br # after) = l # splitlines after) \<and>
   (\<not> list_ex uni_linebreak l \<longrightarrow> splitlines (l @ 0x0D # 0x0A # after) = l # splitlines after) \<and>
   (uni_space x \<longleftrightarrow>
      x \<in> {0x09..0x0D} \<union> {0x1C..0x20} \<union> {0x85, 0xA0, 0x1680} \<union> {0x2000..0x200A} \<union>
          {0x2028, 0x2029, 0x202F, 0x205F, 0x3000}) \<and>
   (uni_linebreak x \<longleftrightarrow> x \<in> {0x0A..0x0D} \<union> {0x1C..0x1E} \<union> {0x85, 0x2028, 0x2029}) \<and>
   (uni_decimal nd x \<longleftrightarrow> x \<in> {0x30..0x39} \<or> 0x80 \<le> x \<and> nd x)"
proof -
  have q: "text_questions nd t = question_lines nd t"
    by (simp add: text_questions_def question_lines_def questions_loop_eq)
  have f: "fallback_extract_questions s =
      map decode (question_lines (\<lambda>c. False) (encode s))"
    by (simp add: fallback_extract_questions_def text_questions_def question_lines_def
          questions_loop_eq)
  have st: "list_all uni_space a \<and> list_all uni_space b \<and>
      (m = [] \<or> \<not> uni_space (hd m) \<and> \<not> uni_space (last m)) \<longrightarrow>
      text_strip (a @ m @ b) = m"
    using text_strip_pin [of a b m] by blast
  have o1: "ds \<noteq> [] \<and> list_all (uni_decimal nd) ds \<and>
      (c = code CHR ''.'' \<or> c = code CHR '')'') \<and>
      list_all uni_space ws \<and> (rest = [] \<or> \<not> uni_space (hd rest)) \<longrightarrow>
      sub_ordinal nd (ds @ c # ws @ rest) = rest"
    using sub_ordinal_present [of ds nd c ws rest] by blast
  have o2: "list_all (uni_decimal nd) es \<and> (tail = [] \<or> \<not> uni_decimal nd (hd tail)) \<and>
      (es = [] \<or> tail = [] \<or> hd tail \<noteq> code CHR ''.'' \<and> hd tail \<noteq> code CHR '')'') \<longrightarrow>
      sub_ordinal nd (es @ tail) = es @ tail"
    using sub_ordinal_absent [of nd es tail] by blast
  have bp: "(k = code CHR ''-'' \<or> k = code CHR ''*'') \<and>
      list_all uni_space vs \<and> (item' = [] \<or> \<not> uni_space (hd item')) \<longrightarrow>
      sub_bullet (k # vs @ item') = item'"
    using sub_bullet_present [of k vs item'] by blast
  have ba: "plain = [] \<or> hd plain \<noteq> code CHR ''-'' \<and> hd plain \<noteq> code CHR ''*'' \<longrightarrow>
      sub_bullet plain = plain"
    using sub_bullet_absent [of plain] by blast
  have s0: "splitlines [] = []"
    by (simp add: splitlines_def)
  have s1: "l \<noteq> [] \<and> \<not> list_ex uni_linebreak l \<longrightarrow> splitlines l = [l]"
    using splitlines_last [of l] by blast
  have s2: "\<not> list_ex uni_linebreak l \<and> uni_linebreak br \<and>
      \<not> (br = 0x0D \<and> after \<noteq> [] \<and> hd after = 0x0A) \<longrightarrow>
      splitlines (l @ br # after) = l # splitlines after"
    using splitlines_break [of l br after] by blast
  have s3: "\<not> list_ex uni_linebreak l \<longrightarrow>
      splitlines (l @ 0x0D # 0x0A # after) = l # splitlines after"
    using splitlines_crlf [of l after] by blast
  have cs: "uni_space x \<longleftrightarrow>
      x \<in> {0x09..0x0D} \<union> {0x1C..0x20} \<union> {0x85, 0xA0, 0x1680} \<union> {0x2000..0x200A} \<union>
          {0x2028, 0x2029, 0x202F, 0x205F, 0x3000}"
    unfolding uni_space_def by auto
  have cl: "uni_linebreak x \<longleftrightarrow> x \<in> {0x0A..0x0D} \<union> {0x1C..0x1E} \<union> {0x85, 0x2028, 0x2029}"
    unfolding uni_linebreak_def by auto
  have cd: "uni_decimal nd x \<longleftrightarrow> x \<in> {0x30..0x39} \<or> 0x80 \<le> x \<and> nd x"
    unfolding uni_decimal_def by auto
  show ?thesis
    apply (rule conjI, rule q)
    apply (rule conjI, rule f)
    apply (rule conjI, rule st)
    apply (rule conjI, rule o1)
    apply (rule conjI, rule o2)
    apply (rule conjI, rule bp)
    apply (rule conjI, rule ba)
    apply (rule conjI, rule s0)
    apply (rule conjI, rule s1)
    apply (rule conjI, rule s2)
    apply (rule conjI, rule s3)
    apply (rule conjI, rule cs)
    apply (rule conjI, rule cl)
    apply (rule cd)
    done
qed

theorem fallback_extract_questions_spec_witness:
  "text_questions example_digits example_text =
     map encode [''Which port should the server use?'', ''What is the deadline?'',
                 ''Do we keep the old parser?'', ''1. Should it retry on failure?''] \<and>
   fallback_extract_questions
     ''1. What is the deployment target?\<newline>Some notes.\<newline>2. Is caching required?'' =
     [''What is the deployment target?'', ''Is caching required?''] \<and>
   text_strip ([0x3000, 0x20] @ encode ''- Which port should the server use?'' @ [0x20, 0xA0]) =
     encode ''- Which port should the server use?'' \<and>
   sub_ordinal example_digits
     ([0x663, 0x661] @ code CHR '')'' # [0x20, 0x20] @ encode ''- Do we keep the old parser?'') =
     encode ''- Do we keep the old parser?'' \<and>
   sub_ordinal example_digits (encode ''15'' @ encode '' ports are open?'') =
     encode ''15'' @ encode '' ports are open?'' \<and>
   sub_bullet (code CHR ''*'' # [0x20, 0xA0] @ encode ''Do we keep the old parser?'') =
     encode ''Do we keep the old parser?'' \<and>
   sub_bullet (encode ''1. Should it retry on failure?'') =
     encode ''1. Should it retry on failure?'' \<and>
   splitlines (encode ''lexer.py'') = [encode ''lexer.py''] \<and>
   splitlines (encode ''lexer.py'' @ 0x2028 # encode ''parser.py'') =
     encode ''lexer.py'' # splitlines (encode ''parser.py'') \<and>
   splitlines (encode ''lexer.py'' @ 0x0D # 0x0A # encode ''parser.py'') =
     encode ''lexer.py'' # splitlines (encode ''parser.py'') \<and>
   uni_space 0x2028 \<and> uni_linebreak 0x2028 \<and> \<not> uni_decimal example_digits 0x2028"
  using fallback_extract_questions_spec
    [where nd = example_digits and t = example_text
       and s = "''1. What is the deployment target?\<newline>Some notes.\<newline>2. Is caching required?''"
       and a = "[0x3000, 0x20]" and m = "encode ''- Which port should the server use?''"
       and b = "[0x20, 0xA0]"
       and ds = "[0x663, 0x661]" and c = "code CHR '')''" and ws = "[0x20, 0x20]"
       and rest = "encode ''- Do we keep the old parser?''"
       and es = "encode ''15''" and tail = "encode '' ports are open?''"
       and k = "code CHR ''*''" and vs = "[0x20, 0xA0]"
       and item' = "encode ''Do we keep the old parser?''"
       and plain = "encode ''1. Should it retry on failure?''"
       and l = "encode ''lexer.py''" and br = "0x2028" and after = "encode ''parser.py''"
       and x = "0x2028"]
  apply (simp only: example_text_questions example_numbered_questions)
  apply (simp add: encode_def code_def uni_space_def uni_decimal_def uni_linebreak_def
           example_digits_def)
  done

section \<open>Result interpreter: the normalized result\<close>

lemma first_payload_has_status:
  "first_payload loads ms = Inr (Some wd) \<Longrightarrow> dict_has wd ''status''"
  by (induction ms) (auto split: sum.splits json.splits if_splits)

lemma extract_has_status:
  "extract_worker_json loads findall t = Inr (Some wd) \<Longrightarrow> dict_has wd ''status''"
  by (auto simp: extract_worker_json_def first_payload_has_status
           split: json.splits sum.splits if_splits)

text \<open>
  On a text where \<^verbatim>\<open>json.loads\<close> raises nothing but \<^verbatim>\<open>JSONDecodeError\<close>, for the
  text and for its fenced blocks, \<^verbatim>\<open>_extract_worker_json\<close> returns.
\<close>

lemma first_payload_returns:
  "\<forall>m\<in>set ms. \<forall>e. loads m = Inl e \<longrightarrow> e = JSONDecodeError \<Longrightarrow>
   \<exists>p. first_payload loads ms = Inr p"
  by (induction ms) (auto split: sum.splits json.splits)

lemma extract_str_returns:
  assumes "\<forall>m\<in>set (s # findall s). \<forall>e. loads m = Inl e \<longrightarrow> e = JSONDecodeError"
  shows "\<exists>p. extract_worker_json loads findall (JStr s) = Inr p"
proof -
  from assms have "\<exists>p. first_payload loads (findall s) = Inr p"
    by (intro first_payload_returns) simp
  moreover from assms have "\<forall>e. loads s = Inl e \<longrightarrow> e = JSONDecodeError" by simp
  ultimately show ?thesis
    by (auto simp add: extract_worker_json_def split: sum.splits json.splits)
qed

lemma extract_returns_str:
  "extract_worker_json loads findall t = Inr p \<Longrightarrow> \<exists>s. t = JStr s"
  by (cases t) (simp_all add: extract_worker_json_def)

lemma fallback_result_eq:
  "fallback_result r
     [(''session_id'', a1), (''model'', a2), (''cost_usd'', a3), (''duration_ms'', a4),
      (''num_turns'', a5), (''is_error'', a6), (''subtype'', a7)] (JStr s) =
   Inr [(''session_id'', a1), (''model'', a2), (''cost_usd'', a3), (''duration_ms'', a4),
        (''num_turns'', a5), (''is_error'', a6), (''subtype'', a7),
        (''status'',
         JStr (if map_of r ''subtype'' = Some (JStr ''error_max_turns'') then ''incomplete''
               else if fallback_extract_questions s \<noteq> [] then ''needs_clarification''
               else ''completed'')),
        (''summary'', JStr ''''),
        (''analysis'', JStr s),
        (''questions'', JArr (map JStr (fallback_extract_questions s))),
        (''files_analyzed'', JArr [])]"
  by (simp add: fallback_result_def Let_def)

text \<open>The result on the heuristic path, and on the structured path, written out.\<close>

lemma normalized_fallback:
  assumes "dict_get r ''result'' (JStr '''') = JStr s"
    and "extract_worker_json loads findall (JStr s) = Inr None"
  shows "normalized_result loads findall (JObj r) =
     Inr [(''session_id'', dict_get r ''session_id'' (JStr '''')),
          (''model'', dict_get r ''model'' (JStr '''')),
          (''cost_usd'', dict_get r ''total_cost_usd'' (JInt 0)),
          (''duration_ms'', dict_get r ''duration_ms'' (JInt 0)),
          (''num_turns'', dict_get r ''num_turns'' (JInt 0)),
          (''is_error'', dict_get r ''is_error'' (JBool False)),
          (''subtype'', dict_get r ''subtype'' (JStr '''')),
          (''status'',
           JStr (if map_of r ''subtype'' = Some (JStr ''error_max_turns'') then ''incomplete''
                 else if fallback_extract_questions s \<noteq> [] then ''needs_clarification''
                 else ''completed'')),
          (''summary'', JStr ''''),
          (''analysis'', JStr s),
          (''questions'', JArr (map JStr (fallback_extract_questions s))),
          (''files_analyzed'', JArr [])]"
  using assms by (simp add: normalized_result_def Let_def fallback_result_eq)

lemma normalized_structured:
  assumes "dict_get r ''result'' (JStr '''') = t"
    and "extract_worker_json loads findall t = Inr (Some wd)"
  shows "normalized_result loads findall (JObj r) =
     Inr [(''session_id'', dict_get r ''session_id'' (JStr '''')),
          (''model'', dict_get r ''model'' (JStr '''')),
          (''cost_usd'', dict_get r ''total_cost_usd'' (JInt 0)),
          (''duration_ms'', dict_get r ''duration_ms'' (JInt 0)),
          (''num_turns'', dict_get r ''num_turns'' (JInt 0)),
          (''is_error'', dict_get r ''is_error'' (JBool False)),
          (''subtype'', dict_get r ''subtype'' (JStr '''')),
          (''status'', dict_get wd ''status'' (JStr ''completed'')),
          (''summary'', dict_get wd ''summary'' (JStr '''')),
          (''analysis'', dict_get wd ''analysis'' (JStr '''')),
          (''questions'', dict_get wd ''questions'' (JArr [])),
          (''files_analyzed'', dict_get wd ''files_analyzed'' (JArr []))]"
proof -
  from assms(2) have "dict_has wd ''status''" by (rule extract_has_status)
  then have "wd \<noteq> []" by (auto simp: dict_has_def)
  with assms show ?thesis by (simp add: normalized_result_def Let_def)
qed

lemma normalized_is_dict:
  "normalized_result loads findall raw = Inr res \<Longrightarrow> \<exists>r. raw = JObj r"
  by (cases raw) (simp_all add: normalized_result_def)

lemma normalized_extract:
  "normalized_result loads findall (JObj r) = Inr res \<Longrightarrow>
   \<exists>p. extract_worker_json loads findall (dict_get r ''result'' (JStr '''')) = Inr p"
  by (cases "extract_worker_json loads findall (dict_get r ''result'' (JStr ''''))")
     (simp_all add: normalized_result_def Let_def)

lemma list_all_is_str: "list_all is_str (map JStr qs)"
  by (induction qs) (simp_all add: is_str_def)

lemma normalized_keys:
  assumes "normalized_result loads findall raw = Inr res"
  shows "map fst res = RESULT_KEYS"
proof -
  obtain r where raw: "raw = JObj r" using assms normalized_is_dict by blast
  obtain p where p: "extract_worker_json loads findall (dict_get r ''result'' (JStr '''')) = Inr p"
    using assms raw normalized_extract by blast
  show ?thesis
  proof (cases p)
    case None
    obtain s where s: "dict_get r ''result'' (JStr '''') = JStr s"
      using p extract_returns_str by blast
    have x: "extract_worker_json loads findall (JStr s) = Inr None" using p s None by simp
    show ?thesis using assms unfolding raw normalized_fallback [OF s x]
      by (auto simp: RESULT_KEYS_def)
  next
    case (Some wd)
    have x: "extract_worker_json loads findall (dict_get r ''result'' (JStr '''')) = Inr (Some wd)"
      using p Some by simp
    show ?thesis using assms unfolding raw normalized_structured [OF refl x]
      by (auto simp: RESULT_KEYS_def)
  qed
qed

text \<open>The texts of the examples at the library calls.\<close>

lemma example_extract_question:
  "extract_worker_json example_loads example_findall
     (JStr ''Which port should the service use?'') = Inr None"
  by (simp add: extract_worker_json_def example_loads_def example_findall_def
                payload_text_def envelope_text_def)

lemma example_question:
  "fallback_extract_questions ''Which port should the service use?'' =
   [''Which port should the service use?'']"
  by code_simp

text \<open>
  C4. When \<^verbatim>\<open>_extract_worker_json\<close> recovers no payload, \<^verbatim>\<open>_run\<close> returns, and in
  its result the status is \<^verbatim>\<open>incomplete\<close> if the subtype of the raw response is
  \<^verbatim>\<open>error_max_turns\<close>, whatever the text is; otherwise \<^verbatim>\<open>needs_clarification\<close> if
  the heuristic list of questions is not empty, otherwise \<^verbatim>\<open>completed\<close>. The summary is
  the empty string, the analysis is the whole raw result text, the questions are the
  heuristic list and \<^verbatim>\<open>files_analyzed\<close> is the empty list.
\<close>

theorem fallback_fields:
  assumes "dict_get r ''result'' (JStr '''') = JStr s"
    and "extract_worker_json loads findall (JStr s) = Inr None"
  shows "\<exists>res. normalized_result loads findall (JObj r) = Inr res \<and>
     item (JObj res) ''status'' =
       JStr (if map_of r ''subtype'' = Some (JStr ''error_max_turns'') then ''incomplete''
             else if fallback_extract_questions s \<noteq> [] then ''needs_clarification''
             else ''completed'') \<and>
     item (JObj res) ''summary'' = JStr '''' \<and>
     item (JObj res) ''analysis'' = JStr s \<and>
     item (JObj res) ''questions'' = JArr (map JStr (fallback_extract_questions s)) \<and>
     item (JObj res) ''files_analyzed'' = JArr []"
  unfolding normalized_fallback [OF assms]
  by (simp add: item_def dict_get_def)

theorem fallback_fields_witness:
  "\<exists>res. normalized_result example_loads example_findall
       (JObj [(''subtype'', JStr ''error_max_turns''),
              (''result'', JStr ''Which port should the service use?'')]) = Inr res \<and>
     item (JObj res) ''status'' = JStr ''incomplete'' \<and>
     item (JObj res) ''summary'' = JStr '''' \<and>
     item (JObj res) ''analysis'' = JStr ''Which port should the service use?'' \<and>
     item (JObj res) ''questions'' = JArr [JStr ''Which port should the service use?''] \<and>
     item (JObj res) ''files_analyzed'' = JArr []"
proof -
  have r: "dict_get [(''subtype'', JStr ''error_max_turns''),
              (''result'', JStr ''Which port should the service use?'')] ''result'' (JStr '''')
           = JStr ''Which port should the service use?''"
    by (simp add: dict_get_def)
  show ?thesis
    using fallback_fields [OF r example_extract_question] by (simp add: example_question)
qed

lemma example_loads_digits: "example_loads (replicate 4301 CHR ''1'') = Inl ValueError"
  by (simp add: example_loads_def list_all_iff)

text \<open>
  C3 fails: the interpretation raises. A result that is not a string, \<^verbatim>\<open>null\<close> for
  one, passes the first \<^verbatim>\<open>json.loads\<close>, whose \<^verbatim>\<open>TypeError\<close> is caught, and then
  \<^verbatim>\<open>re.findall\<close> raises a \<^verbatim>\<open>TypeError\<close> that nothing catches. A result string on
  which \<^verbatim>\<open>json.loads\<close> raises anything but \<^verbatim>\<open>JSONDecodeError\<close> and
  \<^verbatim>\<open>TypeError\<close>, a \<^verbatim>\<open>ValueError\<close> for a number of 4301 digits or a
  \<^verbatim>\<open>RecursionError\<close>, is not caught either. In both cases \<^verbatim>\<open>_run\<close> raises
  instead of taking the heuristic path.
\<close>

theorem interpretation_raises:
  "(dict_get r ''result'' (JStr '''') = v \<and> \<not> is_str v \<longrightarrow>
      extract_worker_json loads findall v = Inl TypeError \<and>
      normalized_result loads findall (JObj r) = Inl TypeError) \<and>
   (dict_get r' ''result'' (JStr '''') = JStr s \<and> loads s = Inl e \<and>
    e \<noteq> JSONDecodeError \<and> e \<noteq> TypeError \<longrightarrow>
      extract_worker_json loads findall (JStr s) = Inl e \<and>
      normalized_result loads findall (JObj r') = Inl e)"
proof -
  have a: "extract_worker_json loads findall v = Inl TypeError \<and>
      normalized_result loads findall (JObj r) = Inl TypeError"
    if "dict_get r ''result'' (JStr '''') = v" and "\<not> is_str v"
  proof -
    from that(2) have x: "extract_worker_json loads findall v = Inl TypeError"
      by (cases v) (simp_all add: extract_worker_json_def is_str_def)
    with that(1) show ?thesis by (simp add: normalized_result_def Let_def)
  qed
  have b: "extract_worker_json loads findall (JStr s) = Inl e \<and>
      normalized_result loads findall (JObj r') = Inl e"
    if "dict_get r' ''result'' (JStr '''') = JStr s" and "loads s = Inl e"
      and "e \<noteq> JSONDecodeError" and "e \<noteq> TypeError"
  proof -
    from that(2-4) have x: "extract_worker_json loads findall (JStr s) = Inl e"
      by (simp add: extract_worker_json_def)
    with that(1) show ?thesis by (simp add: normalized_result_def Let_def)
  qed
  from a b show ?thesis by blast
qed

theorem interpretation_raises_witness:
  "normalized_result example_loads example_findall
     (JObj [(''session_id'', JStr ''abc123''), (''result'', JNull)]) = Inl TypeError \<and>
   normalized_result example_loads example_findall
     (JObj [(''session_id'', JStr ''abc123''), (''result'', JStr (replicate 4301 CHR ''1''))]) =
     Inl ValueError"
  using interpretation_raises
    [where r = "[(''session_id'', JStr ''abc123''), (''result'', JNull)]" and v = JNull
       and r' = "[(''session_id'', JStr ''abc123''), (''result'', JStr (replicate 4301 CHR ''1''))]"
       and s = "replicate 4301 CHR ''1''" and e = ValueError
       and loads = example_loads and findall = example_findall]
  by (simp add: dict_get_def is_str_def example_loads_digits)

text \<open>
  C2, as the code has it. Whenever \<^verbatim>\<open>_run\<close> returns a normalized result, the raw
  response is a dict and its result text went through \<^verbatim>\<open>_extract_worker_json\<close>. If no
  payload was recovered, the status is one of the three values, questions that are not
  empty come with \<^verbatim>\<open>needs_clarification\<close> or with \<^verbatim>\<open>incomplete\<close>, and
  \<^verbatim>\<open>needs_clarification\<close> never comes with an empty list. If a payload was recovered,
  the status and the questions are the payload's own, copied as they are.
\<close>

theorem status_and_questions:
  assumes "normalized_result loads findall raw = Inr res"
  shows "\<exists>r. raw = JObj r \<and>
     (case extract_worker_json loads findall (dict_get r ''result'' (JStr '''')) of
        Inl e \<Rightarrow> False
      | Inr None \<Rightarrow> fallback_invariant res
      | Inr (Some wd) \<Rightarrow>
          map_of wd ''status'' = Some (item (JObj res) ''status'') \<and>
          item (JObj res) ''questions'' = dict_get wd ''questions'' (JArr []))"
proof -
  obtain r where raw: "raw = JObj r" using assms normalized_is_dict by blast
  obtain p where p: "extract_worker_json loads findall (dict_get r ''result'' (JStr '''')) = Inr p"
    using assms raw normalized_extract by blast
  show ?thesis
  proof (cases p)
    case None
    obtain s where s: "dict_get r ''result'' (JStr '''') = JStr s"
      using p extract_returns_str by blast
    have x: "extract_worker_json loads findall (JStr s) = Inr None" using p s None by simp
    have res: "res =
       [(''session_id'', dict_get r ''session_id'' (JStr '''')),
        (''model'', dict_get r ''model'' (JStr '''')),
        (''cost_usd'', dict_get r ''total_cost_usd'' (JInt 0)),
        (''duration_ms'', dict_get r ''duration_ms'' (JInt 0)),
        (''num_turns'', dict_get r ''num_turns'' (JInt 0)),
        (''is_error'', dict_get r ''is_error'' (JBool False)),
        (''subtype'', dict_get r ''subtype'' (JStr '''')),
        (''status'',
         JStr (if map_of r ''subtype'' = Some (JStr ''error_max_turns'') then ''incomplete''
               else if fallback_extract_questions s \<noteq> [] then ''needs_clarification''
               else ''completed'')),
        (''summary'', JStr ''''),
        (''analysis'', JStr s),
        (''questions'', JArr (map JStr (fallback_extract_questions s))),
        (''files_analyzed'', JArr [])]"
      using assms unfolding raw normalized_fallback [OF s x] by simp
    have "fallback_invariant res"
    proof (cases "map_of r ''subtype'' = Some (JStr ''error_max_turns'')")
      case True
      then show ?thesis unfolding res
        by (simp add: fallback_invariant_def STATUSES_def item_def dict_get_def nonempty_list_def
                 split: list.splits)
    next
      case False
      then show ?thesis unfolding res
        by (cases "fallback_extract_questions s")
           (simp_all add: fallback_invariant_def STATUSES_def item_def dict_get_def
                          nonempty_list_def)
    qed
    then show ?thesis using raw p None by simp
  next
    case (Some wd)
    have x: "extract_worker_json loads findall (dict_get r ''result'' (JStr '''')) = Inr (Some wd)"
      using p Some by simp
    have st: "dict_has wd ''status''" using x by (rule extract_has_status)
    have "map_of wd ''status'' = Some (item (JObj res) ''status'') \<and>
          item (JObj res) ''questions'' = dict_get wd ''questions'' (JArr [])"
      using assms st unfolding raw normalized_structured [OF refl x]
      by (auto simp: item_def dict_get_def dict_has_def)
    then show ?thesis using raw x by simp
  qed
qed

theorem status_and_questions_witness:
  "fallback_invariant
     [(''session_id'', JStr ''''), (''model'', JStr ''''), (''cost_usd'', JInt 0),
      (''duration_ms'', JInt 0), (''num_turns'', JInt 0), (''is_error'', JBool False),
      (''subtype'', JStr ''error_max_turns''), (''status'', JStr ''incomplete''),
      (''summary'', JStr ''''), (''analysis'', JStr ''Which port should the service use?''),
      (''questions'', JArr [JStr ''Which port should the service use?'']),
      (''files_analyzed'', JArr [])]"
proof -
  have n: "normalized_result example_loads example_findall
       (JObj [(''subtype'', JStr ''error_max_turns''),
              (''result'', JStr ''Which port should the service use?'')]) =
     Inr [(''session_id'', JStr ''''), (''model'', JStr ''''), (''cost_usd'', JInt 0),
      (''duration_ms'', JInt 0), (''num_turns'', JInt 0), (''is_error'', JBool False),
      (''subtype'', JStr ''error_max_turns''), (''status'', JStr ''incomplete''),
      (''summary'', JStr ''''), (''analysis'', JStr ''Which port should the service use?''),
      (''questions'', JArr [JStr ''Which port should the service use?'']),
      (''files_analyzed'', JArr [])]"
    by (simp add: normalized_result_def Let_def dict_get_def example_extract_question
                  fallback_result_def example_question)
  show ?thesis
    using status_and_questions [OF n] example_extract_question by (simp add: dict_get_def)
qed

text \<open>
  C2 as it is worded fails twice. With the subtype \<^verbatim>\<open>error_max_turns\<close> and a question
  in the text, the status is \<^verbatim>\<open>incomplete\<close> and the questions are not empty. With a
  payload whose status is \<^verbatim>\<open>partial\<close>, that status is returned.
\<close>

theorem status_invariant_counterexample:
  "map_sum id status_invariant
     (normalized_result example_loads example_findall
        (JObj [(''subtype'', JStr ''error_max_turns''),
               (''result'', JStr ''Which port should the service use?'')])) = Inr False \<and>
   map_sum id status_invariant
     (normalized_result example_loads example_findall
        (JObj [(''session_id'', JStr ''abc123''), (''result'', JStr payload_text)])) = Inr False"
proof -
  have a: "map_sum id status_invariant
     (normalized_result example_loads example_findall
        (JObj [(''subtype'', JStr ''error_max_turns''),
               (''result'', JStr ''Which port should the service use?'')])) = Inr False"
    by (simp add: normalized_result_def Let_def dict_get_def example_extract_question
                  fallback_result_def example_question
                  status_invariant_def item_def nonempty_list_def STATUSES_def)
  have y: "extract_worker_json example_loads example_findall (JStr payload_text) =
           Inr (Some [(''status'', JStr ''partial''), (''questions'', JArr [JStr ''Which port?''])])"
    by (simp add: extract_worker_json_def example_loads_def dict_has_def payload_text_def)
  have b: "map_sum id status_invariant
     (normalized_result example_loads example_findall
        (JObj [(''session_id'', JStr ''abc123''), (''result'', JStr payload_text)])) = Inr False"
    by (simp add: normalized_result_def Let_def dict_get_def y
                  status_invariant_def item_def nonempty_list_def STATUSES_def)
  from a b show ?thesis by simp
qed

section \<open>Session store: round trip and delete\<close>





text \<open>Where the path of a plain id leads: to the entry of that name, whatever the directory holds.\<close>

lemma split_from_no_sep: "sep \<notin> set s \<Longrightarrow> split_from sep cur s = [rev cur @ s]"
  by (induction s arbitrary: cur) auto

lemma components_plain:
  assumes "CHR ''/'' \<notin> set sid"
  shows "components (sid @ ''.json'') = [sid @ ''.json'']"
proof -
  from assms have "CHR ''/'' \<notin> set (sid @ ''.json'')" by simp
  then have "split (sid @ ''.json'') CHR ''/'' = [sid @ ''.json'']"
    using split_from_no_sep [of "CHR ''/''" "sid @ ''.json''" "[]"] by (simp add: split_def)
  moreover have "sid @ ''.json'' \<noteq> ''.''"
    by (cases sid) simp_all
  ultimately show ?thesis by (simp add: components_def)
qed

lemma locate_plain:
  assumes "plain_id sid"
  shows "locate dir (sid @ ''.json'') = Entry (sid @ ''.json'')"
proof -
  from assms have sl: "CHR ''/'' \<notin> set sid" and nul: "CHR 0x00 \<notin> set sid"
    and len: "utf8_length (sid @ ''.json'') \<le> NAME_MAX"
    by (simp_all add: plain_id_def)
  from nul have n: "CHR 0x00 \<notin> set (sid @ ''.json'')" by simp
  from sl have a: "\<not> startswith (sid @ ''.json'') ''/''"
    by (cases sid) (auto simp add: startswith_def)
  have d: "sid @ ''.json'' \<noteq> ''..''"
    by (cases sid) simp_all
  from len d have "walk dir 0 [sid @ ''.json''] = Entry (sid @ ''.json'')"
    by simp
  moreover from len have "\<not> PATH_ROOM < utf8_length (sid @ ''.json'')"
    by (simp add: NAME_MAX_def PATH_ROOM_def)
  ultimately show ?thesis
    using n a unfolding locate_def components_plain [OF sl] by simp
qed



lemma path_exists_plain:
  "plain_id sid \<Longrightarrow>
   path_exists dir (sid @ ''.json'') = Inr (map_of dir (sid @ ''.json'') \<noteq> None)"
  by (simp add: path_exists_def locate_plain)

text \<open>A write changes nothing in where a path leads.\<close>

lemma walk_entry:
  "walk dir level cs = Entry n \<Longrightarrow> walk dir' level cs = Entry n"
  by (induction dir level cs rule: walk.induct) (auto split: if_splits)

lemma locate_after_write:
  assumes "locate dir name = Entry n"
  shows "locate (AList.update n f dir) name = Entry n"
proof (cases "map_of dir name = None")
  case False
  with assms have "n = name" by (simp add: locate_def)
  then show ?thesis by (simp add: locate_def update_conv')
next
  case True
  with assms have c: "CHR 0x00 \<notin> set name" "\<not> startswith name ''/''"
      "\<not> PATH_ROOM < utf8_length name"
    and w: "walk dir 0 (components name) = Entry n"
    by (simp_all add: locate_def split: if_splits)
  from w have "walk (AList.update n f dir) 0 (components name) = Entry n"
    by (rule walk_entry)
  with c True show ?thesis by (simp add: locate_def update_conv')
qed

text \<open>What \<^verbatim>\<open>session_save\<close> returns and writes where the path leads to an entry.\<close>

lemma session_save_entry:
  assumes "locate dir (session_path fmt session_id) = Entry n"
  shows "session_save fmt clock session_id task result cwd model dir =
     Inr (session_record clock session_id task result cwd model,
          AList.update n (Json (session_record clock session_id task result cwd model)) dir)"
  using assms by (simp add: session_save_def write_text_def Let_def)

lemma session_save_returns:
  assumes "session_save fmt clock session_id task result cwd model dir = Inr (data, dir')"
  shows "data = session_record clock session_id task result cwd model \<and>
     (\<exists>n. locate dir (session_path fmt session_id) = Entry n \<and>
          dir' = AList.update n (Json data) dir)"
  using assms
  by (cases "locate dir (session_path fmt session_id)")
     (auto simp add: session_save_def write_text_def Let_def)

lemma get_after_write:
  assumes "locate dir (sid @ ''.json'') = Entry n"
  shows "session_get (AList.update n (Json data) dir) sid = Inr data"
  using locate_after_write [OF assms, of "Json data"]
  by (simp add: session_get_def path_exists_def read_text_def read_json_def update_conv')

lemma first_match_none:
  "\<forall>(name, f) \<in> set ps. \<not> startswith (path_stem name) p \<Longrightarrow> first_match ps p = Inr JNull"
  by (induction ps) auto




lemma locate_too_long:
  assumes "CHR ''/'' \<notin> set sid" and "CHR 0x00 \<notin> set sid"
    and "NAME_MAX < utf8_length (sid @ ''.json'')" and "utf8_length (sid @ ''.json'') \<le> PATH_ROOM"
    and "map_of dir (sid @ ''.json'') = None"
  shows "locate dir (sid @ ''.json'') = NoEntry OSError"
proof -
  from assms(1) have a: "\<not> startswith (sid @ ''.json'') ''/''"
    by (cases sid) (auto simp add: startswith_def)
  from assms(2) have n: "CHR 0x00 \<notin> set (sid @ ''.json'')" by simp
  have d: "sid @ ''.json'' \<noteq> ''..''"
    by (cases sid) simp_all
  from assms(3) d have "walk dir 0 [sid @ ''.json''] = NoEntry OSError"
    by simp
  with n a assms(4,5) show ?thesis
    unfolding locate_def components_plain [OF assms(1)] by simp
qed

lemma example_long_id:
  "locate [] (replicate 300 CHR ''a'' @ ''.json'') = NoEntry OSError"
  by (rule locate_too_long)
     (simp_all add: NAME_MAX_def PATH_ROOM_def utf8_length_def sum_list_replicate)

lemma example_dot_id: "locate dir ''./abc123.json'' = (if map_of dir ''./abc123.json'' \<noteq> None
     then Entry ''./abc123.json'' else Entry ''abc123.json'')"
  by (simp add: locate_def startswith_def components_def split_def NAME_MAX_def PATH_ROOM_def
        utf8_length_def)




text \<open>
  C8, as the code has it, for an id that is a plain file name. \<^verbatim>\<open>session_delete\<close>
  returns false, raises nothing and leaves the directory as it is when there is no file
  of that exact id, and returns true when there is one, which is then gone. After a
  successful delete, \<^verbatim>\<open>session_get\<close> for that id returns no match provided no other
  session file's stem starts with the id; the lookup by prefix is still made.
\<close>

theorem delete_then_get:
  assumes "plain_id sid"
  shows "(map_of dir (sid @ ''.json'') = None \<longrightarrow> session_delete dir sid = Inr (False, dir)) \<and>
   (map_of dir (sid @ ''.json'') \<noteq> None \<longrightarrow>
      session_delete dir sid = Inr (True, AList.delete (sid @ ''.json'') dir) \<and>
      map_of (AList.delete (sid @ ''.json'') dir) (sid @ ''.json'') = None \<and>
      ((\<forall>(name, f) \<in> set dir. name \<noteq> sid @ ''.json'' \<and> endswith name ''.json''
            \<longrightarrow> \<not> startswith (path_stem name) sid)
       \<longrightarrow> session_get (AList.delete (sid @ ''.json'') dir) sid = Inr JNull))"
proof -
  note ex = path_exists_plain [OF assms]
  note lo = locate_plain [OF assms]
  have a: "session_delete dir sid = Inr (False, dir)" if "map_of dir (sid @ ''.json'') = None"
    using that by (simp add: session_delete_def ex)
  have b: "session_delete dir sid = Inr (True, AList.delete (sid @ ''.json'') dir)"
    if "map_of dir (sid @ ''.json'') \<noteq> None"
    using that by (simp add: session_delete_def ex lo)
  have gone: "map_of (AList.delete (sid @ ''.json'') dir) (sid @ ''.json'') = None"
    by (simp add: delete_conv')
  have d: "session_get (AList.delete (sid @ ''.json'') dir) sid = Inr JNull"
    if others: "\<forall>(name, f) \<in> set dir. name \<noteq> sid @ ''.json'' \<and> endswith name ''.json''
            \<longrightarrow> \<not> startswith (path_stem name) sid"
  proof -
    have "\<forall>(name, f) \<in> set (glob_json (AList.delete (sid @ ''.json'') dir)).
            \<not> startswith (path_stem name) sid"
      using others by (auto simp: glob_json_def AList.delete_eq)
    then have "first_match (glob_json (AList.delete (sid @ ''.json'') dir)) sid = Inr JNull"
      by (rule first_match_none)
    with gone show ?thesis by (simp add: session_get_def ex)
  qed
  from a b gone d show ?thesis by simp
qed

theorem delete_then_get_witness:
  "session_delete two_sessions_dir ''abcdef'' =
     Inr (True, [(''abc.json'', Json (JObj [(''session_id'', JStr ''abc'')]))]) \<and>
   session_get [(''abc.json'', Json (JObj [(''session_id'', JStr ''abc'')]))] ''abcdef'' =
     Inr JNull \<and>
   session_delete two_sessions_dir ''xyz'' = Inr (False, two_sessions_dir)"
proof -
  have p1: "plain_id ''abcdef''" and p2: "plain_id ''xyz''"
    by (simp_all add: plain_id_def utf8_length_def NAME_MAX_def)
  have m: "map_of two_sessions_dir (''abcdef'' @ ''.json'') \<noteq> None"
    by (simp add: two_sessions_dir_def)
  have n: "map_of two_sessions_dir (''xyz'' @ ''.json'') = None"
    by (simp add: two_sessions_dir_def)
  have o: "\<forall>(name, f) \<in> set two_sessions_dir.
      name \<noteq> ''abcdef'' @ ''.json'' \<and> endswith name ''.json''
      \<longrightarrow> \<not> startswith (path_stem name) ''abcdef''"
    by (simp add: two_sessions_dir_def startswith_def path_stem_def rfind_def)
  have k: "AList.delete (''abcdef'' @ ''.json'') two_sessions_dir =
      [(''abc.json'', Json (JObj [(''session_id'', JStr ''abc'')]))]"
    by (simp add: two_sessions_dir_def)
  show ?thesis
    using delete_then_get [OF p1, of two_sessions_dir] delete_then_get [OF p2, of two_sessions_dir]
      m n o
    by (simp only: k simp_thms)
qed

text \<open>
  C8 as it is worded fails three times. When another session's id starts with the
  deleted one: with the sessions \<^verbatim>\<open>abc\<close> and \<^verbatim>\<open>abcdef\<close>, deleting \<^verbatim>\<open>abc\<close> returns
  true, and \<^verbatim>\<open>session_get\<close> for \<^verbatim>\<open>abc\<close> then returns the record of \<^verbatim>\<open>abcdef\<close>.
  For an id of 300 characters, of which there is no session file, \<^verbatim>\<open>path.exists()\<close>
  raises \<^verbatim>\<open>OSError\<close>. And for the id \<^verbatim>\<open>./abc123\<close>, of which there is no session file
  either, the file of the session \<^verbatim>\<open>abc123\<close> is deleted and true is returned.
\<close>

theorem delete_then_get_counterexample:
  "session_delete two_sessions_dir ''abc'' =
     Inr (True, [(''abcdef.json'', Json (JObj [(''session_id'', JStr ''abcdef'')]))]) \<and>
   session_get [(''abcdef.json'', Json (JObj [(''session_id'', JStr ''abcdef'')]))] ''abc'' =
     Inr (JObj [(''session_id'', JStr ''abcdef'')]) \<and>
   session_delete [] (replicate 300 CHR ''a'') = Inl OSError \<and>
   session_delete example_dir ''./abc123'' = Inr (True, [])"
proof -
  have a: "session_delete two_sessions_dir ''abc'' =
     Inr (True, [(''abcdef.json'', Json (JObj [(''session_id'', JStr ''abcdef'')]))])"
    by (simp add: session_delete_def path_exists_def locate_def two_sessions_dir_def)
  have b: "session_get [(''abcdef.json'', Json (JObj [(''session_id'', JStr ''abcdef'')]))] ''abc'' =
     Inr (JObj [(''session_id'', JStr ''abcdef'')])"
    by (simp add: session_get_def path_exists_def locate_def startswith_def components_def
          split_def NAME_MAX_def PATH_ROOM_def utf8_length_def glob_json_def endswith_def path_stem_def
          rfind_def read_json_def)
  have c: "session_delete [] (replicate 300 CHR ''a'') = Inl OSError"
    by (simp only: session_delete_def path_exists_def example_long_id) simp
  have d: "session_delete example_dir ''./abc123'' = Inr (True, [])"
    by (simp add: session_delete_def path_exists_def example_dir_def)
       (simp add: example_dot_id)
  from a b c d show ?thesis by (intro conjI)
qed

text \<open>What \<^verbatim>\<open>session_update\<close> returns and writes for a record with a list of turns.\<close>

lemma session_update_eq:
  assumes "map_of dir (session_path fmt session_id) = Some (Json (JObj d))"
    and "map_of d ''turns'' = Some (JArr turns)"
  shows "session_update fmt now session_id message result dir =
     Inr (JObj (AList.update ''last_summary'' (dict_get result ''summary'' (JStr ''''))
               (AList.update ''last_status'' (dict_get result ''status'' (JStr ''completed''))
               (AList.update ''updated_at'' (JStr now)
               (AList.update ''turns''
                  (JArr (turns @ [user_turn message now, assistant_turn result now])) d)))),
          AList.update (session_path fmt session_id)
            (Json (JObj (AList.update ''last_summary'' (dict_get result ''summary'' (JStr ''''))
               (AList.update ''last_status'' (dict_get result ''status'' (JStr ''completed''))
               (AList.update ''updated_at'' (JStr now)
               (AList.update ''turns''
                  (JArr (turns @ [user_turn message now, assistant_turn result now])) d))))))
            dir)"
proof -
  from assms(1) have l: "locate dir (session_path fmt session_id) = Entry (session_path fmt session_id)"
    by (simp add: locate_def)
  from assms l show ?thesis
    by (simp add: session_update_def read_text_def write_text_def Let_def)
qed





section \<open>Process failures\<close>




section \<open>The content of the assistant turn\<close>

lemma normalized_no_result_key:
  assumes "normalized_result loads findall raw = Inr res"
  shows "map_of res ''result'' = None"
proof -
  have "''result'' \<notin> set (map fst res)"
    unfolding normalized_keys [OF assms] by (simp add: RESULT_KEYS_def)
  then show ?thesis by (simp add: map_of_eq_None_iff)
qed

lemma example_record_eq:
  "session_record
     (''2026-03-01T10:00:00.000101+00:00'', ''2026-03-01T10:00:00.000105+00:00'',
      ''2026-03-01T10:00:00.000108+00:00'', ''2026-03-01T10:00:00.000111+00:00'')
     (JStr ''abc123'') ''Where is the parser?'' example_result ''.'' (JStr '''') = example_record"
  by (simp add: example_record_def example_fields_def example_turns_def example_result_def
        user_turn_def assistant_turn_def dict_get_def)

lemma example_save:
  "session_save example_format
     (''2026-03-01T10:00:00.000101+00:00'', ''2026-03-01T10:00:00.000105+00:00'',
      ''2026-03-01T10:00:00.000108+00:00'', ''2026-03-01T10:00:00.000111+00:00'')
     (JStr ''abc123'') ''Where is the parser?'' example_result ''.'' (JStr '''') [] =
   Inr (example_record, example_dir)"
proof -
  have "plain_id ''abc123''"
    by (simp add: plain_id_def utf8_length_def NAME_MAX_def)
  then have "locate [] (session_path example_format (JStr ''abc123'')) = Entry (''abc123'' @ ''.json'')"
    unfolding session_path_def json.case by (rule locate_plain)
  then show ?thesis
    by (simp only: session_save_entry example_record_eq) (simp add: example_dir_def)
qed

text \<open>
  C10. A normalized result that \<^verbatim>\<open>_run\<close> returns has no key \<^verbatim>\<open>result\<close>: the tool's
  text is under \<^verbatim>\<open>analysis\<close>. So the record \<^verbatim>\<open>session_save\<close> builds from it has
  the task as the content of its user turn and the empty string as the content of its
  assistant turn; whenever \<^verbatim>\<open>session_save\<close> returns, that record is what it returns
  and what it has written. The two turns \<^verbatim>\<open>session_update\<close> adds to a record have the
  message and the empty string as their contents.
\<close>

theorem assistant_content_empty:
  assumes "normalized_result loads findall raw = Inr result"
  shows "\<not> dict_has result ''result'' \<and>
     map (\<lambda>t. item t ''content'')
       (elements (item (session_record (t1, t2, t3, t4) session_id task result cwd model)
                   ''turns'')) = [JStr task, JStr ''''] \<and>
     (session_save fmt (t1, t2, t3, t4) session_id task result cwd model dir = Inr (saved, dir1)
      \<longrightarrow> saved = session_record (t1, t2, t3, t4) session_id task result cwd model \<and>
          (\<exists>n. dir1 = AList.update n (Json saved) dir) \<and>
          map (\<lambda>t. item t ''content'') (elements (item saved ''turns'')) =
            [JStr task, JStr '''']) \<and>
     (map_of dir (session_path fmt session_id) = Some (Json (JObj d)) \<and>
      map_of d ''turns'' = Some (JArr turns) \<longrightarrow>
        (\<exists>data dir'. session_update fmt now session_id message result dir = Inr (data, dir') \<and>
           map (\<lambda>t. item t ''content'') (elements (item data ''turns'')) =
             map (\<lambda>t. item t ''content'') turns @ [JStr message, JStr '''']))"
proof -
  have n: "map_of result ''result'' = None" using assms by (rule normalized_no_result_key)
  have a: "\<not> dict_has result ''result''" using n by (simp add: dict_has_def)
  have c: "item (assistant_turn result ts) ''content'' = JStr ''''" for ts
    using n by (simp add: assistant_turn_def item_def dict_get_def)
  have u: "item (user_turn m ts) ''content'' = JStr m" for m ts
    by (simp add: user_turn_def item_def dict_get_def)
  have s: "map (\<lambda>t. item t ''content'')
       (elements (item (session_record (t1, t2, t3, t4) session_id task result cwd model)
                   ''turns'')) = [JStr task, JStr '''']"
    by (simp add: item_def [of "JObj _"] dict_get_def elements_def c u)
  have sv: "saved = session_record (t1, t2, t3, t4) session_id task result cwd model \<and>
          (\<exists>n. dir1 = AList.update n (Json saved) dir) \<and>
          map (\<lambda>t. item t ''content'') (elements (item saved ''turns'')) =
            [JStr task, JStr '''']"
    if h: "session_save fmt (t1, t2, t3, t4) session_id task result cwd model dir =
             Inr (saved, dir1)"
  proof -
    from session_save_returns [OF h]
    have 1: "saved = session_record (t1, t2, t3, t4) session_id task result cwd model"
      and 2: "\<exists>n. dir1 = AList.update n (Json saved) dir"
      by blast+
    from s have 3: "map (\<lambda>t. item t ''content'') (elements (item saved ''turns'')) =
        [JStr task, JStr '''']"
      by (simp only: 1)
    from 1 2 3 show ?thesis by (intro conjI)
  qed
  have up: "\<exists>data dir'. session_update fmt now session_id message result dir = Inr (data, dir') \<and>
           map (\<lambda>t. item t ''content'') (elements (item data ''turns'')) =
             map (\<lambda>t. item t ''content'') turns @ [JStr message, JStr '''']"
    if h1: "map_of dir (session_path fmt session_id) = Some (Json (JObj d))"
      and h2: "map_of d ''turns'' = Some (JArr turns)"
    unfolding session_update_eq [OF h1 h2]
    by (simp add: item_def [of "JObj _"] dict_get_def elements_def update_conv' c u)
  from a s sv up show ?thesis by blast
qed

theorem assistant_content_empty_witness:
  "\<not> dict_has example_result ''result'' \<and>
   map (\<lambda>t. item t ''content'') (elements (item example_record ''turns'')) =
     [JStr ''Where is the parser?'', JStr '''']"
proof -
  have x: "extract_worker_json example_loads example_findall
             (JStr ''The parser is in lexer.py.'') = Inr None"
    by (simp add: extract_worker_json_def example_loads_def example_findall_def
                  payload_text_def envelope_text_def)
  have q: "fallback_extract_questions ''The parser is in lexer.py.'' = []"
    by code_simp
  have n: "normalized_result example_loads example_findall
       (JObj [(''session_id'', JStr ''abc123''), (''subtype'', JStr ''success''),
              (''result'', JStr ''The parser is in lexer.py.'')]) = Inr example_result"
    by (simp add: normalized_result_def Let_def dict_get_def x fallback_result_def q
                  example_result_def)
  have a: "\<not> dict_has example_result ''result''"
    using assistant_content_empty [OF n] by (rule conjunct1)
  have "session_save example_format
     (''2026-03-01T10:00:00.000101+00:00'', ''2026-03-01T10:00:00.000105+00:00'',
      ''2026-03-01T10:00:00.000108+00:00'', ''2026-03-01T10:00:00.000111+00:00'')
     (JStr ''abc123'') ''Where is the parser?'' example_result ''.'' (JStr '''') [] =
       Inr (example_record, example_dir)
     \<longrightarrow> example_record = session_record
           (''2026-03-01T10:00:00.000101+00:00'', ''2026-03-01T10:00:00.000105+00:00'',
            ''2026-03-01T10:00:00.000108+00:00'', ''2026-03-01T10:00:00.000111+00:00'')
           (JStr ''abc123'') ''Where is the parser?'' example_result ''.'' (JStr '''') \<and>
         (\<exists>n. example_dir = AList.update n (Json example_record) []) \<and>
         map (\<lambda>t. item t ''content'') (elements (item example_record ''turns'')) =
           [JStr ''Where is the parser?'', JStr '''']"
    by (rule assistant_content_empty [OF n, THEN conjunct2, THEN conjunct2, THEN conjunct1])
  then have b: "map (\<lambda>t. item t ''content'') (elements (item example_record ''turns'')) =
     [JStr ''Where is the parser?'', JStr '''']"
    using example_save by blast
  from a b show ?thesis by (rule conjI)
qed

section \<open>Further properties\<close>

text \<open>
  Where the interpretation does not raise. For every raw response whose result is a
  string (the key may also be absent: the default is the empty string) on which
  \<^verbatim>\<open>json.loads\<close> raises nothing but \<^verbatim>\<open>JSONDecodeError\<close>, for the text and for
  its fenced blocks, \<^verbatim>\<open>_extract_worker_json\<close> returns, and so does the rest of
  \<^verbatim>\<open>_run\<close>, with a result of the twelve keys. When no payload is recovered the
  result comes from the heuristic path and is a well-formed Normalized Result.
\<close>

theorem interpretation_returns:
  assumes "dict_get r ''result'' (JStr '''') = JStr s"
    and "\<forall>m\<in>set (s # findall s). \<forall>e. loads m = Inl e \<longrightarrow> e = JSONDecodeError"
  shows "(\<exists>p. extract_worker_json loads findall (JStr s) = Inr p) \<and>
         (\<exists>res. normalized_result loads findall (JObj r) = Inr res \<and>
                map fst res = RESULT_KEYS \<and>
                (extract_worker_json loads findall (JStr s) = Inr None \<longrightarrow> well_formed res))"
proof -
  obtain p where p: "extract_worker_json loads findall (JStr s) = Inr p"
    using extract_str_returns [where s = s and findall = findall and loads = loads] assms(2)
    by blast
  show ?thesis
  proof (cases p)
    case None
    with p have x: "extract_worker_json loads findall (JStr s) = Inr None" by simp
    have "well_formed
       [(''session_id'', dict_get r ''session_id'' (JStr '''')),
        (''model'', dict_get r ''model'' (JStr '''')),
        (''cost_usd'', dict_get r ''total_cost_usd'' (JInt 0)),
        (''duration_ms'', dict_get r ''duration_ms'' (JInt 0)),
        (''num_turns'', dict_get r ''num_turns'' (JInt 0)),
        (''is_error'', dict_get r ''is_error'' (JBool False)),
        (''subtype'', dict_get r ''subtype'' (JStr '''')),
        (''status'',
         JStr (if map_of r ''subtype'' = Some (JStr ''error_max_turns'') then ''incomplete''
               else if fallback_extract_questions s \<noteq> [] then ''needs_clarification''
               else ''completed'')),
        (''summary'', JStr ''''),
        (''analysis'', JStr s),
        (''questions'', JArr (map JStr (fallback_extract_questions s))),
        (''files_analyzed'', JArr [])]"
      by (simp add: well_formed_def RESULT_KEYS_def STATUSES_def item_def dict_get_def
                    is_str_def is_str_list_def list_all_is_str)
    then show ?thesis
      using x normalized_fallback [OF assms(1) x] by (simp add: well_formed_def)
  next
    case (Some wd)
    with p have x: "extract_worker_json loads findall (JStr s) = Inr (Some wd)" by simp
    show ?thesis
      using x normalized_structured [OF assms(1) x] by (simp add: RESULT_KEYS_def)
  qed
qed

theorem interpretation_returns_witness:
  "(\<exists>p. extract_worker_json example_loads example_findall (JStr ''Some notes.'') = Inr p) \<and>
   (\<exists>res. normalized_result example_loads example_findall
            (JObj [(''session_id'', JStr ''abc123''), (''result'', JStr ''Some notes.'')]) = Inr res \<and>
          map fst res = RESULT_KEYS \<and> well_formed res)"
proof -
  have r: "dict_get [(''session_id'', JStr ''abc123''), (''result'', JStr ''Some notes.'')]
             ''result'' (JStr '''') = JStr ''Some notes.''"
    by (simp add: dict_get_def)
  have x: "extract_worker_json example_loads example_findall (JStr ''Some notes.'') = Inr None"
    by (simp add: extract_worker_json_def example_loads_def example_findall_def
                  payload_text_def envelope_text_def)
  have l: "\<forall>m\<in>set (''Some notes.'' # example_findall ''Some notes.'').
      \<forall>e. example_loads m = Inl e \<longrightarrow> e = JSONDecodeError"
    by (simp add: example_loads_def example_findall_def payload_text_def envelope_text_def)
  show ?thesis
    using interpretation_returns [where findall = example_findall and loads = example_loads, OF r l] x
    by auto
qed

text \<open>
  A payload that \<^verbatim>\<open>_extract_worker_json\<close> returns is a dict with the key
  \<^verbatim>\<open>status\<close>, so it is never empty and \<^verbatim>\<open>if worker_data:\<close> is true of it.
\<close>

theorem payload_has_status:
  assumes "extract_worker_json loads findall t = Inr (Some wd)"
  shows "dict_has wd ''status'' \<and> wd \<noteq> []"
proof -
  have "dict_has wd ''status''" using assms by (rule extract_has_status)
  then show ?thesis by (auto simp: dict_has_def)
qed

theorem payload_has_status_witness:
  "dict_has [(''status'', JStr ''partial''), (''questions'', JArr [JStr ''Which port?''])]
     ''status''"
proof -
  have y: "extract_worker_json example_loads example_findall (JStr payload_text) =
           Inr (Some [(''status'', JStr ''partial''), (''questions'', JArr [JStr ''Which port?''])])"
    by (simp add: extract_worker_json_def example_loads_def dict_has_def payload_text_def)
  show ?thesis using payload_has_status [OF y] by (rule conjunct1)
qed

text \<open>
  \<^verbatim>\<open>session_update\<close> fails loudly: it raises when the file is no JSON, and when the
  record of a plain id is not there, and writes nothing then.
\<close>

theorem session_update_fails_loudly:
  "(map_of dir (session_path fmt session_id) = Some NotJson \<longrightarrow>
      session_update fmt now session_id message result dir = Inl JSONDecodeError) \<and>
   (plain_id sid \<and> map_of dir' (sid @ ''.json'') = None \<longrightarrow>
      session_update fmt now (JStr sid) message result dir' = Inl FileNotFoundError)"
proof -
  have a: "session_update fmt now session_id message result dir = Inl JSONDecodeError"
    if "map_of dir (session_path fmt session_id) = Some NotJson"
    using that by (simp add: session_update_def read_text_def locate_def Let_def)
  have b: "session_update fmt now (JStr sid) message result dir' = Inl FileNotFoundError"
    if "plain_id sid" and "map_of dir' (sid @ ''.json'') = None"
    using locate_plain [OF that(1), of dir'] that(2)
    by (simp add: session_update_def read_text_def session_path_def Let_def)
  from a b show ?thesis by blast
qed

theorem session_update_fails_loudly_witness:
  "session_update example_format ''2026-03-01T10:07:42.310000+00:00'' (JStr ''abc123'')
     ''And the lexer?'' example_result [(''abc123.json'', NotJson)] = Inl JSONDecodeError \<and>
   session_update example_format ''2026-03-01T10:07:42.310000+00:00'' (JStr ''abc123'')
     ''And the lexer?'' example_result [] = Inl FileNotFoundError"
  using session_update_fails_loudly [where dir = "[(''abc123.json'', NotJson)]"
      and fmt = example_format and session_id = "JStr ''abc123''"
      and now = "''2026-03-01T10:07:42.310000+00:00''" and message = "''And the lexer?''"
      and result = example_result and sid = "''abc123''" and dir' = "[]"]
  by (simp add: session_path_def plain_id_def utf8_length_def NAME_MAX_def)

text \<open>
  The success path of \<^verbatim>\<open>cmd_exec\<close>: when \<^verbatim>\<open>_run\<close> returns a result without the key
  \<^verbatim>\<open>error\<close> and with a non-empty plain file name as its session id, the exit status is
  0, the result is printed, and the record written is the one \<^verbatim>\<open>session_get\<close> returns
  for that id: it holds the id, the task and the status of the result.
\<close>

theorem cmd_exec_saves_session:
  assumes "exec_task P args = Inr result"
    and "\<not> dict_has result ''error''"
    and "dict_get result ''session_id'' (JStr '''') = JStr sid"
    and "sid \<noteq> []" and "plain_id sid"
  shows "\<exists>data dir'. cmd_exec P (t1, t2, t3, t4) args dir = Inr (0, JObj result, dir') \<and>
     dir' = AList.update (sid @ ''.json'') (Json data) dir \<and>
     session_get dir' sid = Inr data \<and>
     item data ''session_id'' = JStr sid \<and>
     item data ''task'' = JStr (arg_task args) \<and>
     item data ''created_at'' = JStr t1 \<and>
     item data ''updated_at'' = JStr t2 \<and>
     item data ''last_status'' = dict_get result ''status'' (JStr ''completed'')"
proof -
  let ?cwd = "case arg_cwd args of None \<Rightarrow> ''.'' | Some c \<Rightarrow> if c = [] then ''.'' else c"
  let ?model = "dict_get result ''model''
      (JStr (case arg_model args of None \<Rightarrow> '''' | Some m \<Rightarrow> m))"
  let ?data = "session_record (t1, t2, t3, t4) (JStr sid) (arg_task args) result ?cwd ?model"
  have l: "locate dir (session_path (format_value P) (JStr sid)) = Entry (sid @ ''.json'')"
    using locate_plain [OF assms(5)] by (simp add: session_path_def)
  have sv: "session_save (format_value P) (t1, t2, t3, t4) (JStr sid) (arg_task args) result
      ?cwd ?model dir = Inr (?data, AList.update (sid @ ''.json'') (Json ?data) dir)"
    using l by (rule session_save_entry)
  have 1: "cmd_exec P (t1, t2, t3, t4) args dir =
      Inr (0, JObj result, AList.update (sid @ ''.json'') (Json ?data) dir)"
    using assms(1-4) by (simp add: cmd_exec_def Let_def sv)
  have 2: "session_get (AList.update (sid @ ''.json'') (Json ?data) dir) sid = Inr ?data"
    using locate_plain [OF assms(5)] by (rule get_after_write)
  have 3: "item ?data ''session_id'' = JStr sid \<and>
     item ?data ''task'' = JStr (arg_task args) \<and>
     item ?data ''created_at'' = JStr t1 \<and>
     item ?data ''updated_at'' = JStr t2 \<and>
     item ?data ''last_status'' = dict_get result ''status'' (JStr ''completed'')"
    by (simp add: item_def dict_get_def)
  from 1 2 3 show ?thesis by blast
qed

theorem cmd_exec_saves_session_witness:
  "cmd_exec (example_platform (Completed 0 envelope_text '''')) example_clock example_args [] =
     Inr (0, JObj example_result, example_dir)"
proof -
  have x: "extract_worker_json example_loads example_findall
             (JStr ''The parser is in lexer.py.'') = Inr None"
    by (simp add: extract_worker_json_def example_loads_def example_findall_def
                  payload_text_def envelope_text_def)
  have q: "fallback_extract_questions ''The parser is in lexer.py.'' = []"
    by code_simp
  have l: "example_loads envelope_text =
     Inr (JObj [(''session_id'', JStr ''abc123''), (''subtype'', JStr ''success''),
                (''result'', JStr ''The parser is in lexer.py.'')])"
    by (simp add: example_loads_def payload_text_def envelope_text_def)
  have e: "exec_task (example_platform (Completed 0 envelope_text '''')) example_args =
           Inr example_result"
    by (simp add: exec_task_def example_platform_def run_def l normalized_result_def Let_def
                  dict_get_def x fallback_result_def q example_result_def)
  have n: "\<not> dict_has example_result ''error''"
    by (simp add: dict_has_def example_result_def)
  have i: "dict_get example_result ''session_id'' (JStr '''') = JStr ''abc123''"
    by (simp add: dict_get_def example_result_def)
  have ne: "''abc123'' \<noteq> []" by simp
  have pl: "plain_id ''abc123''"
    by (simp add: plain_id_def utf8_length_def NAME_MAX_def)
  obtain data :: json and dir' where
    c: "cmd_exec (example_platform (Completed 0 envelope_text ''''))
          (''2026-03-01T10:00:00.000101+00:00'', ''2026-03-01T10:00:00.000105+00:00'',
           ''2026-03-01T10:00:00.000108+00:00'', ''2026-03-01T10:00:00.000111+00:00'')
          example_args [] = Inr (0, JObj example_result, dir')"
    and g: "session_get dir' ''abc123'' = Inr data"
    and d: "dir' = AList.update (''abc123'' @ ''.json'') (Json data) []"
    using cmd_exec_saves_session [OF e n i ne pl, of
        "''2026-03-01T10:00:00.000101+00:00''" "''2026-03-01T10:00:00.000105+00:00''"
        "''2026-03-01T10:00:00.000108+00:00''" "''2026-03-01T10:00:00.000111+00:00''" "[]"]
    by blast
  have m: "dict_get example_result ''model'' (JStr v) = JStr []" for v
    by (simp add: dict_get_def example_result_def)
  have "cmd_exec (example_platform (Completed 0 envelope_text ''''))
          (''2026-03-01T10:00:00.000101+00:00'', ''2026-03-01T10:00:00.000105+00:00'',
           ''2026-03-01T10:00:00.000108+00:00'', ''2026-03-01T10:00:00.000111+00:00'')
          example_args [] = Inr (0, JObj example_result, example_dir)"
    apply (simp only: cmd_exec_def e)
    apply (simp add: n i m Let_def example_args_def example_platform_def example_save)
    done
  with c have "dir' = example_dir" by simp
  with c show ?thesis by (simp add: example_clock_def)
qed

text \<open>
  The specification's example of the heuristic path: two numbered questions around a
  line of notes give \<^verbatim>\<open>needs_clarification\<close> and the two questions without their
  ordinals.
\<close>

theorem numbered_questions_example:
  "map_sum id (\<lambda>res. (item (JObj res) ''status'', item (JObj res) ''questions''))
     (normalized_result example_loads example_findall
        (JObj [(''subtype'', JStr ''success''),
               (''result'',
                JStr ''1. What is the deployment target?\<newline>Some notes.\<newline>2. Is caching required?'')])) =
   Inr (JStr ''needs_clarification'',
        JArr [JStr ''What is the deployment target?'', JStr ''Is caching required?''])"
proof -
  have x: "extract_worker_json example_loads example_findall
     (JStr ''1. What is the deployment target?\<newline>Some notes.\<newline>2. Is caching required?'') =
     Inr None"
    by (simp add: extract_worker_json_def example_loads_def example_findall_def
                  payload_text_def envelope_text_def)
  have q: "fallback_extract_questions
     ''1. What is the deployment target?\<newline>Some notes.\<newline>2. Is caching required?'' =
     [''What is the deployment target?'', ''Is caching required?'']"
    by code_simp
  show ?thesis
    by (simp add: normalized_result_def Let_def dict_get_def x fallback_result_def q item_def)
qed

end
